theory Spec2Isabelle
  imports Main "HOL-Library.AList"
begin

section \<open>pdldb: the table manager and its facade\<close>

text \<open>
  A shallow embedding of \<^verbatim>\<open>src/pdldb/base_table_manager.py\<close> (class
  \<^verbatim>\<open>BaseTableManager\<close>) and \<^verbatim>\<open>src/pdldb/lake_manager.py\<close> (class
  \<^verbatim>\<open>LakeManager\<close> and its parameter models). Methods of the first class carry the
  prefix \<open>BaseTableManager_\<close>, methods of the second the prefix \<open>LakeManager_\<close>, since
  both classes use the same method names.

  Python strings are modelled as \<^typ>\<open>string\<close>; a \<^typ>\<open>char\<close> stands for a code point
  below 256. A Python \<^verbatim>\<open>dict\<close> is an association list in insertion order, read with
  \<^const>\<open>map_of\<close> and written with \<^const>\<open>AList.update\<close> (an existing key keeps its
  position, a new key goes last, as in Python).
\<close>

subsection \<open>Python string operations used by the source\<close>

text \<open>\<^verbatim>\<open>sep.join(xs)\<close>.\<close>

fun join_str :: "string \<Rightarrow> string list \<Rightarrow> string" where
  "join_str sep [] = []"
| "join_str sep [x] = x"
| "join_str sep (x # y # ys) = x @ sep @ join_str sep (y # ys)"

text \<open>\<^verbatim>\<open>s.split(d)\<close> for a one-character separator: every occurrence splits, empty
  pieces are kept, and the result is never empty.\<close>

fun split_on :: "char \<Rightarrow> string \<Rightarrow> string list" where
  "split_on d [] = [[]]"
| "split_on d (c # cs) =
     (if c = d then [] # split_on d cs
      else (case split_on d cs of
              [] \<Rightarrow> [[c]]
            | w # ws \<Rightarrow> (c # w) # ws))"

text \<open>The code points below 256 for which \<^verbatim>\<open>str.isspace\<close> holds.\<close>

definition py_whitespace :: "char list" where
  "py_whitespace =
     [CHR 0x09, CHR 0x0A, CHR 0x0B, CHR 0x0C, CHR 0x0D,
      CHR 0x1C, CHR 0x1D, CHR 0x1E, CHR 0x1F, CHR 0x20, CHR 0x85, CHR 0xA0]"

definition isspace :: "char \<Rightarrow> bool" where
  "isspace c = (c \<in> set py_whitespace)"

text \<open>\<^verbatim>\<open>s.strip()\<close>.\<close>

definition strip :: "string \<Rightarrow> string" where
  "strip s = rev (dropWhile isspace (rev (dropWhile isspace s)))"

subsection \<open>Exceptions\<close>

text \<open>
  A failed pydantic validation raises one \<^verbatim>\<open>ValidationError\<close> that lists every failed
  field: the \<^verbatim>\<open>ValueError\<close> of a field validator with its message, or the rejection
  of an input that is not one of the values of a \<^verbatim>\<open>Literal\<close>.
\<close>

datatype field_error =
    FieldValueError string string
  | FieldLiteralError string string

text \<open>
  An exception raised by the engine: \<^verbatim>\<open>deltalake.exceptions.TableNotFoundError\<close>, or any
  other \<^verbatim>\<open>Exception\<close>. Each carries \<^verbatim>\<open>str(e)\<close>, the text an f-string of the source
  formats it to.
\<close>

datatype engine_exn =
    TableNotFoundError string
  | OtherException string

fun exn_str :: "engine_exn \<Rightarrow> string" where
  "exn_str (TableNotFoundError m) = m"
| "exn_str (OtherException m) = m"

fun is_TableNotFoundError :: "engine_exn \<Rightarrow> bool" where
  "is_TableNotFoundError (TableNotFoundError m) = True"
| "is_TableNotFoundError (OtherException m) = False"

text \<open>
  The exceptions a method ends with: those the source raises itself (\<open>KeyError\<close> carries
  the missing key of \<^verbatim>\<open>self.tables[table_name]\<close>), and an exception of the engine that
  the source lets through (\<open>EngineRaised\<close>).
\<close>

datatype exn =
    ValueError string
  | RuntimeError string
  | KeyError string
  | TypeError string
  | ValidationError "field_error list"
  | EngineRaised engine_exn

subsection \<open>Data model\<close>

type_synonym 'ty schema = "(string \<times> 'ty) list"

text \<open>A polars \<^verbatim>\<open>DataFrame\<close>: its schema (column name to data type) and its rows.\<close>

record ('row, 'ty) dataframe =
  df_schema :: "'ty schema"
  df_rows :: "'row list"

text \<open>
  Modelled from the spec: the class \<^verbatim>\<open>BaseTable\<close> of
  \<^verbatim>\<open>pdldb/base_table_validator.py\<close>, which is not among the sources. The source
  constructs it with the keywords \<^verbatim>\<open>name\<close>, \<^verbatim>\<open>table_schema\<close>,
  \<^verbatim>\<open>primary_keys\<close> and reads the last two back as attributes.
\<close>

record 'ty base_table =
  name :: string
  table_schema :: "'ty schema"
  primary_keys :: string

text \<open>
  Modelled from the spec: \<^verbatim>\<open>BaseTable.validate_schema\<close>, not among the sources.
  Section 4.2 of the spec: true iff the batch's column set and per-column declared types
  exactly match the definition's schema, independently of the order of the columns.
\<close>

definition validate_schema :: "'ty base_table \<Rightarrow> ('row, 'ty) dataframe \<Rightarrow> bool" where
  "validate_schema bt df \<longleftrightarrow>
     set (map fst (df_schema df)) = set (map fst (table_schema bt)) \<and>
     list_all (\<lambda>c. map_of (df_schema df) c = map_of (table_schema bt) c)
       (map fst (table_schema bt))"

text \<open>\<^verbatim>\<open>Union[str, list[str]]\<close>, the type of the \<^verbatim>\<open>primary_keys\<close> argument.\<close>

datatype pk_spec = PKStr string | PKList "string list"

text \<open>The key columns a caller declares with a \<^typ>\<open>pk_spec\<close>.\<close>

fun pk_columns :: "pk_spec \<Rightarrow> string list" where
  "pk_columns (PKStr s) = [s]"
| "pk_columns (PKList cs) = cs"

subsection \<open>The external engine\<close>

text \<open>
  Values that cross the boundary to polars and deltalake. \<open>PObj\<close> is any object the
  model does not look into (a \<^verbatim>\<open>TableMerger\<close>, a \<^verbatim>\<open>DeltaTable\<close>, metadata,
  \<^verbatim>\<open>WriterProperties\<close>, compaction metrics).
\<close>

datatype ('row, 'ty, 'v) pyval =
    PNone
  | PStr string
  | PInt int
  | PDataFrame "('row, 'ty) dataframe"
  | PLazyFrame "('row, 'ty) dataframe"
  | PList "('row, 'ty, 'v) pyval list"
  | PObj 'v

type_synonym ('row, 'ty, 'v) options = "(string \<times> ('row, 'ty, 'v) pyval) list"

text \<open>\<^verbatim>\<open>Path(base_path) / table_name\<close>; the engine receives \<^verbatim>\<open>str\<close> of it.\<close>

datatype path = PathJoin string string

datatype merge_clause =
    WhenMatchedUpdateAll
  | WhenNotMatchedInsertAll
  | WhenMatchedDelete
  | WhenNotMatchedBySourceDelete

text \<open>
  The calls the source makes into polars, deltalake and the file system, with the
  arguments it passes; an argument the source leaves out is \<open>None\<close>.
  \<^item> \<open>WriteDelta target mode df delta_write_options storage_options delta_merge_options\<close>
    is \<^verbatim>\<open>df.write_delta(target, mode=..., ...)\<close>;
  \<^item> \<open>MergerExecute merger clauses\<close> is \<^verbatim>\<open>merger.<clauses in order>.execute()\<close>;
  \<^item> \<open>ReadDelta\<close>, \<open>ScanDelta\<close> are \<^verbatim>\<open>pl.read_delta\<close>, \<^verbatim>\<open>pl.scan_delta\<close>;
  \<^item> \<open>OpenDeltaTable\<close> is the constructor \<^verbatim>\<open>DeltaTable(path, storage_options=...)\<close>;
  \<^item> \<open>Compact dt target_size max_concurrent_tasks writer_properties\<close> is
    \<^verbatim>\<open>dt.optimize.compact(...)\<close>;
  \<^item> \<open>Vacuum dt retention_hours dry_run enforce_retention_duration\<close> is \<^verbatim>\<open>dt.vacuum(...)\<close>;
  \<^item> \<open>Version dt\<close>, \<open>Metadata dt\<close> are \<^verbatim>\<open>dt.version()\<close>, \<^verbatim>\<open>dt.metadata()\<close>;
  \<^item> \<open>GlobParquet p\<close> is \<^verbatim>\<open>list(p.glob("*.parquet"))\<close>.
\<close>

datatype ('row, 'ty, 'v) engine_call =
    WriteDelta path string "('row, 'ty) dataframe"
      "('row, 'ty, 'v) options option" "(string \<times> string) list option"
      "('row, 'ty, 'v) options option"
  | MergerExecute "('row, 'ty, 'v) pyval" "merge_clause list"
  | ReadDelta path "(string \<times> string) list option"
  | ScanDelta path "(string \<times> string) list option"
  | OpenDeltaTable path "(string \<times> string) list option"
  | Compact "('row, 'ty, 'v) pyval" "int option" "int option" "'v option"
  | Vacuum "('row, 'ty, 'v) pyval" "int option" bool bool
  | Version "('row, 'ty, 'v) pyval"
  | Metadata "('row, 'ty, 'v) pyval"
  | GlobParquet path

datatype ('row, 'ty, 'v) reply =
    Raises engine_exn
  | Returns "('row, 'ty, 'v) pyval"

text \<open>
  The engine is opaque: it answers a call given the calls made before it. Every theorem
  below holds for every such engine.
\<close>

type_synonym ('row, 'ty, 'v) engine =
  "('row, 'ty, 'v) engine_call list \<Rightarrow> ('row, 'ty, 'v) engine_call \<Rightarrow> ('row, 'ty, 'v) reply"

subsection \<open>State\<close>

text \<open>
  The attributes of a \<^verbatim>\<open>BaseTableManager\<close> (\<open>storage_options\<close>, \<open>base_path\<close>,
  \<open>tables\<close>: the catalog) and the log of the calls made to the engine so far.
\<close>

record ('row, 'ty, 'v) manager =
  storage_options :: "(string \<times> string) list option"
  base_path :: string
  tables :: "(string \<times> 'ty base_table) list"
  calls :: "('row, 'ty, 'v) engine_call list"

definition call_engine ::
  "('row, 'ty, 'v) engine \<Rightarrow> ('row, 'ty, 'v) engine_call \<Rightarrow> ('row, 'ty, 'v) manager \<Rightarrow>
   ('row, 'ty, 'v) reply \<times> ('row, 'ty, 'v) manager" where
  "call_engine eng c st = (eng (calls st) c, st\<lparr>calls := calls st @ [c]\<rparr>)"

text \<open>A call whose returned value the source discards.\<close>

definition call_unit ::
  "('row, 'ty, 'v) engine \<Rightarrow> ('row, 'ty, 'v) engine_call \<Rightarrow> ('row, 'ty, 'v) manager \<Rightarrow>
   (exn + unit) \<times> ('row, 'ty, 'v) manager" where
  "call_unit eng c st =
     (case call_engine eng c st of
        (Raises e, st') \<Rightarrow> (Inl (EngineRaised e), st')
      | (Returns v, st') \<Rightarrow> (Inr (), st'))"

text \<open>A call whose returned value the source returns.\<close>

definition call_value ::
  "('row, 'ty, 'v) engine \<Rightarrow> ('row, 'ty, 'v) engine_call \<Rightarrow> ('row, 'ty, 'v) manager \<Rightarrow>
   (exn + ('row, 'ty, 'v) pyval) \<times> ('row, 'ty, 'v) manager" where
  "call_value eng c st =
     (case call_engine eng c st of
        (Raises e, st') \<Rightarrow> (Inl (EngineRaised e), st')
      | (Returns v, st') \<Rightarrow> (Inr v, st'))"

subsection \<open>\<^verbatim>\<open>BaseTableManager\<close>\<close>

text \<open>\<^verbatim>\<open>create_table\<close>: a list of key columns is joined with commas, a string is kept;
  the entry is stored under the name, replacing an entry of that name.\<close>

definition BaseTableManager_create_table ::
  "string \<Rightarrow> 'ty schema \<Rightarrow> pk_spec \<Rightarrow> ('row, 'ty, 'v) manager \<Rightarrow>
   (exn + unit) \<times> ('row, 'ty, 'v) manager" where
  "BaseTableManager_create_table tn tschema pks st =
     (let pk = (case pks of PKList cs \<Rightarrow> join_str '','' cs | PKStr s \<Rightarrow> s);
          bt = \<lparr>name = tn, table_schema = tschema, primary_keys = pk\<rparr>
      in (Inr (), st\<lparr>tables := AList.update tn bt (tables st)\<rparr>))"

text \<open>\<^verbatim>\<open>delta_write_options = delta_write_options or {}\<close> followed by
  \<^verbatim>\<open>delta_write_options["description"] = primary_keys\<close>.\<close>

definition with_description ::
  "('row, 'ty, 'v) options option \<Rightarrow> string \<Rightarrow> ('row, 'ty, 'v) options" where
  "with_description dwo pk =
     AList.update ''description'' (PStr pk) (case dwo of None \<Rightarrow> [] | Some d \<Rightarrow> d)"

definition BaseTableManager_append ::
  "('row, 'ty, 'v) engine \<Rightarrow> string \<Rightarrow> ('row, 'ty) dataframe \<Rightarrow>
   ('row, 'ty, 'v) options option \<Rightarrow> ('row, 'ty, 'v) manager \<Rightarrow>
   (exn + unit) \<times> ('row, 'ty, 'v) manager" where
  "BaseTableManager_append eng tn df dwo st =
     (case map_of (tables st) tn of
        None \<Rightarrow> (Inl (KeyError tn), st)
      | Some bt \<Rightarrow>
          if \<not> validate_schema bt df
          then (Inl (ValueError ''DataFrame does not match table schema''), st)
          else call_unit eng
                 (WriteDelta (PathJoin (base_path st) tn) ''append'' df
                    (Some (with_description dwo (primary_keys bt))) (storage_options st) None)
                 st)"

text \<open>The join predicate of \<^verbatim>\<open>merge\<close> (the local \<^verbatim>\<open>predicate\<close>), from the stored
  key string.\<close>

definition merge_predicate :: "string \<Rightarrow> string" where
  "merge_predicate pk =
     (if CHR '','' \<in> set pk
      then join_str '' AND ''
             (map (\<lambda>col. ''s.'' @ col @ '' = t.'' @ col) (map strip (split_on CHR '','' pk)))
      else ''s.'' @ pk @ '' = t.'' @ pk)"

definition delta_merge_options :: "string \<Rightarrow> ('row, 'ty, 'v) options" where
  "delta_merge_options pk =
     [(''predicate'', PStr (merge_predicate pk)),
      (''source_alias'', PStr ''s''),
      (''target_alias'', PStr ''t'')]"

text \<open>One of the five \<^verbatim>\<open>if merge_condition == ...\<close> statements of the \<^verbatim>\<open>try\<close>
  block: skipped once an exception is under way, otherwise it builds the clauses on the
  merger and executes them when the condition holds.\<close>

definition execute_if ::
  "('row, 'ty, 'v) engine \<Rightarrow> bool \<Rightarrow> ('row, 'ty, 'v) pyval \<Rightarrow> merge_clause list \<Rightarrow>
   engine_exn option \<times> ('row, 'ty, 'v) manager \<Rightarrow>
   engine_exn option \<times> ('row, 'ty, 'v) manager" where
  "execute_if eng b merger clauses r =
     (case r of
        (Some e, st) \<Rightarrow> (Some e, st)
      | (None, st) \<Rightarrow>
          if b then
            (case call_engine eng (MergerExecute merger clauses) st of
               (Raises e, st') \<Rightarrow> (Some e, st')
             | (Returns v, st') \<Rightarrow> (None, st'))
          else (None, st))"

text \<open>The body of the \<^verbatim>\<open>try\<close> block of \<^verbatim>\<open>merge\<close>: the exception it ends with, if
  any, and the state.\<close>

definition merge_try ::
  "('row, 'ty, 'v) engine \<Rightarrow> string \<Rightarrow> ('row, 'ty) dataframe \<Rightarrow> string \<Rightarrow> string \<Rightarrow>
   ('row, 'ty, 'v) manager \<Rightarrow> engine_exn option \<times> ('row, 'ty, 'v) manager" where
  "merge_try eng tn df merge_condition pk st =
     (case call_engine eng
             (WriteDelta (PathJoin (base_path st) tn) ''merge'' df None (storage_options st)
                (Some (delta_merge_options pk))) st of
        (Raises e, st1) \<Rightarrow> (Some e, st1)
      | (Returns merger, st1) \<Rightarrow>
          (let r = (None, st1);
               r = execute_if eng (merge_condition = ''update'') merger
                     [WhenMatchedUpdateAll] r;
               r = execute_if eng (merge_condition = ''insert'') merger
                     [WhenNotMatchedInsertAll] r;
               r = execute_if eng (merge_condition = ''delete'') merger
                     [WhenMatchedDelete] r;
               r = execute_if eng (merge_condition = ''upsert'') merger
                     [WhenMatchedUpdateAll, WhenNotMatchedInsertAll] r;
               r = execute_if eng (merge_condition = ''upsert_delete'') merger
                     [WhenMatchedUpdateAll, WhenNotMatchedInsertAll,
                      WhenNotMatchedBySourceDelete] r
           in r))"

definition no_data_message :: "string \<Rightarrow> string" where
  "no_data_message merge_condition =
     ''No log files found or data found.'' @
     ''Please check if table data exists or if the merge condition ('' @ merge_condition @
     '') is correct.''"

definition BaseTableManager_merge ::
  "('row, 'ty, 'v) engine \<Rightarrow> string \<Rightarrow> ('row, 'ty) dataframe \<Rightarrow> string \<Rightarrow>
   ('row, 'ty, 'v) options option \<Rightarrow> ('row, 'ty, 'v) manager \<Rightarrow>
   (exn + unit) \<times> ('row, 'ty, 'v) manager" where
  "BaseTableManager_merge eng tn df merge_condition dwo st =
     (case map_of (tables st) tn of
        None \<Rightarrow> (Inl (KeyError tn), st)
      | Some bt \<Rightarrow>
          if \<not> validate_schema bt df
          then (Inl (ValueError ''DataFrame does not match table schema''), st)
          else
            (case merge_try eng tn df merge_condition (primary_keys bt) st of
               (None, st') \<Rightarrow> (Inr (), st')
             | (Some e, st') \<Rightarrow>
                 if is_TableNotFoundError e then
                   if merge_condition \<in> set [''insert'', ''upsert''] then
                     call_unit eng
                       (WriteDelta (PathJoin (base_path st') tn) ''append'' df
                          (Some (with_description dwo (primary_keys bt)))
                          (storage_options st') None)
                       st'
                   else (Inl (ValueError (no_data_message merge_condition)), st')
                 else
                   (Inl (RuntimeError
                      (''An error occurred during the merge operation: '' @ exn_str e)), st')))"

definition BaseTableManager_overwrite ::
  "('row, 'ty, 'v) engine \<Rightarrow> string \<Rightarrow> ('row, 'ty) dataframe \<Rightarrow>
   ('row, 'ty, 'v) options option \<Rightarrow> ('row, 'ty, 'v) manager \<Rightarrow>
   (exn + unit) \<times> ('row, 'ty, 'v) manager" where
  "BaseTableManager_overwrite eng tn df dwo st =
     (case map_of (tables st) tn of
        None \<Rightarrow> (Inl (KeyError tn), st)
      | Some bt \<Rightarrow>
          if \<not> validate_schema bt df
          then (Inl (ValueError ''DataFrame does not match table schema''), st)
          else call_unit eng
                 (WriteDelta (PathJoin (base_path st) tn) ''overwrite'' df
                    (Some (with_description dwo (primary_keys bt))) (storage_options st) None)
                 st)"

text \<open>\<^verbatim>\<open>pl.DataFrame(schema=schema)\<close>: the frame of that schema with no rows.\<close>

definition empty_frame :: "'ty schema \<Rightarrow> ('row, 'ty) dataframe" where
  "empty_frame s = \<lparr>df_schema = s, df_rows = []\<rparr>"

definition not_exist_message :: "string \<Rightarrow> engine_exn \<Rightarrow> string" where
  "not_exist_message tn e =
     ''Table '' @ [CHR 0x27] @ tn @ [CHR 0x27] @ '' does not exist or has no data: '' @ exn_str e"

definition BaseTableManager_get_data_frame ::
  "('row, 'ty, 'v) engine \<Rightarrow> string \<Rightarrow> ('row, 'ty, 'v) manager \<Rightarrow>
   (exn + ('row, 'ty, 'v) pyval) \<times> ('row, 'ty, 'v) manager" where
  "BaseTableManager_get_data_frame eng tn st =
     (case call_engine eng (ReadDelta (PathJoin (base_path st) tn) (storage_options st)) st of
        (Returns v, st') \<Rightarrow> (Inr v, st')
      | (Raises e, st') \<Rightarrow>
          if is_TableNotFoundError e then
            (case map_of (tables st') tn of
               Some bt \<Rightarrow> (Inr (PDataFrame (empty_frame (table_schema bt))), st')
             | None \<Rightarrow> (Inl (ValueError (not_exist_message tn e)), st'))
          else (Inl (EngineRaised e), st'))"

definition BaseTableManager_get_lazy_frame ::
  "('row, 'ty, 'v) engine \<Rightarrow> string \<Rightarrow> ('row, 'ty, 'v) manager \<Rightarrow>
   (exn + ('row, 'ty, 'v) pyval) \<times> ('row, 'ty, 'v) manager" where
  "BaseTableManager_get_lazy_frame eng tn st =
     (case call_engine eng (ScanDelta (PathJoin (base_path st) tn) (storage_options st)) st of
        (Returns v, st') \<Rightarrow> (Inr v, st')
      | (Raises e, st') \<Rightarrow>
          if is_TableNotFoundError e then
            (case map_of (tables st') tn of
               Some bt \<Rightarrow> (Inr (PLazyFrame (empty_frame (table_schema bt))), st')
             | None \<Rightarrow> (Inl (ValueError (not_exist_message tn e)), st'))
          else (Inl (EngineRaised e), st'))"

definition BaseTableManager_optimize_table ::
  "('row, 'ty, 'v) engine \<Rightarrow> string \<Rightarrow> int option \<Rightarrow> int option \<Rightarrow> 'v option \<Rightarrow>
   ('row, 'ty, 'v) manager \<Rightarrow> (exn + ('row, 'ty, 'v) pyval) \<times> ('row, 'ty, 'v) manager" where
  "BaseTableManager_optimize_table eng tn target_size max_concurrent_tasks writer_properties st =
     (case call_value eng
             (OpenDeltaTable (PathJoin (base_path st) tn) (storage_options st)) st of
        (Inl e, st') \<Rightarrow> (Inl e, st')
      | (Inr delta_table, st') \<Rightarrow>
          call_value eng
            (Compact delta_table target_size max_concurrent_tasks writer_properties) st')"

definition BaseTableManager_vacuum_table ::
  "('row, 'ty, 'v) engine \<Rightarrow> string \<Rightarrow> int option \<Rightarrow> bool \<Rightarrow>
   ('row, 'ty, 'v) manager \<Rightarrow> (exn + ('row, 'ty, 'v) pyval) \<times> ('row, 'ty, 'v) manager" where
  "BaseTableManager_vacuum_table eng tn retention_hours enforce_retention_duration st =
     (case call_value eng
             (OpenDeltaTable (PathJoin (base_path st) tn) (storage_options st)) st of
        (Inl e, st') \<Rightarrow> (Inl e, st')
      | (Inr delta_table, st') \<Rightarrow>
          call_value eng
            (Vacuum delta_table retention_hours False enforce_retention_duration) st')"

text \<open>The dictionary \<^verbatim>\<open>get_table_info\<close> returns.\<close>

record ('row, 'ty, 'v) table_info =
  info_exists :: bool
  info_version :: "('row, 'ty, 'v) pyval"
  info_metadata :: "('row, 'ty, 'v) pyval"
  info_size :: nat
  info_schema :: "'ty schema"
  info_primary_keys :: string

text \<open>\<^verbatim>\<open>get_table_info\<close>: the table is opened first, then the catalog is read, then the
  entries of the dictionary are evaluated in the order written. \<^verbatim>\<open>len(list(...))\<close>
  of the glob is the length of the list the file system returns.\<close>

definition BaseTableManager_get_table_info ::
  "('row, 'ty, 'v) engine \<Rightarrow> string \<Rightarrow> ('row, 'ty, 'v) manager \<Rightarrow>
   (exn + ('row, 'ty, 'v) table_info) \<times> ('row, 'ty, 'v) manager" where
  "BaseTableManager_get_table_info eng tn st =
     (case call_value eng
             (OpenDeltaTable (PathJoin (base_path st) tn) (storage_options st)) st of
        (Inl e, st1) \<Rightarrow> (Inl e, st1)
      | (Inr dt, st1) \<Rightarrow>
          (case map_of (tables st1) tn of
             None \<Rightarrow> (Inl (KeyError tn), st1)
           | Some bt \<Rightarrow>
               (case call_value eng (Version dt) st1 of
                  (Inl e, st2) \<Rightarrow> (Inl e, st2)
                | (Inr ver, st2) \<Rightarrow>
                    (case call_value eng (Metadata dt) st2 of
                       (Inl e, st3) \<Rightarrow> (Inl e, st3)
                     | (Inr md, st3) \<Rightarrow>
                         (case call_value eng (GlobParquet (PathJoin (base_path st3) tn)) st3 of
                            (Inl e, st4) \<Rightarrow> (Inl e, st4)
                          | (Inr (PList fs), st4) \<Rightarrow>
                              (Inr \<lparr>info_exists = True, info_version = ver,
                                    info_metadata = md, info_size = length fs,
                                    info_schema = table_schema bt,
                                    info_primary_keys = primary_keys bt\<rparr>, st4)
                          | (Inr v, st4) \<Rightarrow>
                              (Inl (TypeError ''object is not iterable''), st4))))))"

text \<open>\<^verbatim>\<open>list_tables\<close>: the comprehension visits the names of the catalog in order and
  stops at the first exception.\<close>

fun list_tables_loop ::
  "('row, 'ty, 'v) engine \<Rightarrow> string list \<Rightarrow> ('row, 'ty, 'v) manager \<Rightarrow>
   (exn + (string \<times> ('row, 'ty, 'v) table_info) list) \<times> ('row, 'ty, 'v) manager" where
  "list_tables_loop eng [] st = (Inr [], st)"
| "list_tables_loop eng (n # ns) st =
     (case BaseTableManager_get_table_info eng n st of
        (Inl e, st') \<Rightarrow> (Inl e, st')
      | (Inr i, st') \<Rightarrow>
          (case list_tables_loop eng ns st' of
             (Inl e, st'') \<Rightarrow> (Inl e, st'')
           | (Inr is, st'') \<Rightarrow> (Inr ((n, i) # is), st'')))"

definition BaseTableManager_list_tables ::
  "('row, 'ty, 'v) engine \<Rightarrow> ('row, 'ty, 'v) manager \<Rightarrow>
   (exn + (string \<times> ('row, 'ty, 'v) table_info) list) \<times> ('row, 'ty, 'v) manager" where
  "BaseTableManager_list_tables eng st = list_tables_loop eng (map fst (tables st)) st"

definition BaseTableManager_get_table_schema ::
  "string \<Rightarrow> ('row, 'ty, 'v) manager \<Rightarrow> (exn + 'ty schema) \<times> ('row, 'ty, 'v) manager" where
  "BaseTableManager_get_table_schema tn st =
     (case map_of (tables st) tn of
        None \<Rightarrow> (Inl (KeyError tn), st)
      | Some bt \<Rightarrow> (Inr (table_schema bt), st))"

subsection \<open>The parameter models of \<^verbatim>\<open>lake_manager.py\<close>\<close>

text \<open>The field validator \<^verbatim>\<open>validate_table_name\<close>, shared by \<^verbatim>\<open>TableCreateModel\<close>,
  \<^verbatim>\<open>TableOperationModel\<close> and \<^verbatim>\<open>TableNameModel\<close>: \<^verbatim>\<open>not v or not v.strip()\<close>.\<close>

definition validate_table_name :: "string \<Rightarrow> field_error list" where
  "validate_table_name v =
     (if v = [] \<or> strip v = []
      then [FieldValueError ''table_name'' ''Table name cannot be empty'']
      else [])"

text \<open>The \<^verbatim>\<open>Literal\<close> type of \<^verbatim>\<open>MergeOperationModel.merge_condition\<close>.\<close>

definition merge_conditions :: "string list" where
  "merge_conditions = [''update'', ''insert'', ''delete'', ''upsert'', ''upsert_delete'']"

definition validate_merge_condition :: "string \<Rightarrow> field_error list" where
  "validate_merge_condition mc =
     (if mc \<in> set merge_conditions then [] else [FieldLiteralError ''merge_condition'' mc])"

definition model_validate :: "field_error list \<Rightarrow> exn + unit" where
  "model_validate errs = (if errs = [] then Inr () else Inl (ValidationError errs))"

definition TableCreateModel :: "string \<Rightarrow> exn + unit" where
  "TableCreateModel tn = model_validate (validate_table_name tn)"

definition TableOperationModel :: "string \<Rightarrow> exn + unit" where
  "TableOperationModel tn = model_validate (validate_table_name tn)"

definition MergeOperationModel :: "string \<Rightarrow> string \<Rightarrow> exn + unit" where
  "MergeOperationModel tn mc =
     model_validate (validate_table_name tn @ validate_merge_condition mc)"

definition TableNameModel :: "string \<Rightarrow> exn + unit" where
  "TableNameModel tn = model_validate (validate_table_name tn)"

text \<open>\<^verbatim>\<open>OptimizeTableModel\<close> and \<^verbatim>\<open>VacuumTableModel\<close> declare no validator: with
  arguments of the declared types they always construct.\<close>

definition OptimizeTableModel :: "string \<Rightarrow> exn + unit" where
  "OptimizeTableModel tn = Inr ()"

definition VacuumTableModel :: "string \<Rightarrow> exn + unit" where
  "VacuumTableModel tn = Inr ()"

subsection \<open>\<^verbatim>\<open>LakeManager\<close>\<close>

text \<open>The facade works on its \<^verbatim>\<open>table_manager\<close>; its state is that manager's.\<close>

definition check_table_exists :: "string \<Rightarrow> ('row, 'ty, 'v) manager \<Rightarrow> exn + unit" where
  "check_table_exists tn st =
     (if map_of (tables st) tn = None
      then Inl (ValueError (''Table '' @ tn @ '' does not exist''))
      else Inr ())"

definition check_table_not_exists :: "string \<Rightarrow> ('row, 'ty, 'v) manager \<Rightarrow> exn + unit" where
  "check_table_not_exists tn st =
     (if map_of (tables st) tn \<noteq> None
      then Inl (ValueError (''Table '' @ tn @ '' already exists''))
      else Inr ())"

text \<open>The shape of every facade method: construct the parameter model, run the check on
  the catalog, delegate.\<close>

definition guarded ::
  "exn + unit \<Rightarrow> exn + unit \<Rightarrow> (('row, 'ty, 'v) manager \<Rightarrow> (exn + 'a) \<times> ('row, 'ty, 'v) manager) \<Rightarrow>
   ('row, 'ty, 'v) manager \<Rightarrow> (exn + 'a) \<times> ('row, 'ty, 'v) manager" where
  "guarded params check body st =
     (case params of
        Inl e \<Rightarrow> (Inl e, st)
      | Inr u \<Rightarrow>
          (case check of
             Inl e \<Rightarrow> (Inl e, st)
           | Inr u' \<Rightarrow> body st))"

text \<open>The value of a method whose source has no \<^verbatim>\<open>return\<close>.\<close>

definition discard ::
  "(exn + 'a) \<times> ('row, 'ty, 'v) manager \<Rightarrow> (exn + unit) \<times> ('row, 'ty, 'v) manager" where
  "discard r = (case r of (Inl e, st) \<Rightarrow> (Inl e, st) | (Inr v, st) \<Rightarrow> (Inr (), st))"

definition LakeManager_create_table ::
  "string \<Rightarrow> 'ty schema \<Rightarrow> pk_spec \<Rightarrow> ('row, 'ty, 'v) manager \<Rightarrow>
   (exn + unit) \<times> ('row, 'ty, 'v) manager" where
  "LakeManager_create_table tn tschema pks st =
     guarded (TableCreateModel tn) (check_table_not_exists tn st)
       (BaseTableManager_create_table tn tschema pks) st"

definition LakeManager_append_table ::
  "('row, 'ty, 'v) engine \<Rightarrow> string \<Rightarrow> ('row, 'ty) dataframe \<Rightarrow>
   ('row, 'ty, 'v) options option \<Rightarrow> ('row, 'ty, 'v) manager \<Rightarrow>
   (exn + unit) \<times> ('row, 'ty, 'v) manager" where
  "LakeManager_append_table eng tn df dwo st =
     guarded (TableOperationModel tn) (check_table_exists tn st)
       (BaseTableManager_append eng tn df dwo) st"

definition LakeManager_merge_table ::
  "('row, 'ty, 'v) engine \<Rightarrow> string \<Rightarrow> ('row, 'ty) dataframe \<Rightarrow> string \<Rightarrow>
   ('row, 'ty, 'v) options option \<Rightarrow> ('row, 'ty, 'v) manager \<Rightarrow>
   (exn + unit) \<times> ('row, 'ty, 'v) manager" where
  "LakeManager_merge_table eng tn df merge_condition dwo st =
     guarded (MergeOperationModel tn merge_condition) (check_table_exists tn st)
       (BaseTableManager_merge eng tn df merge_condition dwo) st"

definition LakeManager_overwrite_table ::
  "('row, 'ty, 'v) engine \<Rightarrow> string \<Rightarrow> ('row, 'ty) dataframe \<Rightarrow>
   ('row, 'ty, 'v) options option \<Rightarrow> ('row, 'ty, 'v) manager \<Rightarrow>
   (exn + unit) \<times> ('row, 'ty, 'v) manager" where
  "LakeManager_overwrite_table eng tn df dwo st =
     guarded (TableOperationModel tn) (check_table_exists tn st)
       (BaseTableManager_overwrite eng tn df dwo) st"

definition LakeManager_get_data_frame ::
  "('row, 'ty, 'v) engine \<Rightarrow> string \<Rightarrow> ('row, 'ty, 'v) manager \<Rightarrow>
   (exn + ('row, 'ty, 'v) pyval) \<times> ('row, 'ty, 'v) manager" where
  "LakeManager_get_data_frame eng tn st =
     guarded (TableNameModel tn) (check_table_exists tn st)
       (BaseTableManager_get_data_frame eng tn) st"

definition LakeManager_get_lazy_frame ::
  "('row, 'ty, 'v) engine \<Rightarrow> string \<Rightarrow> ('row, 'ty, 'v) manager \<Rightarrow>
   (exn + ('row, 'ty, 'v) pyval) \<times> ('row, 'ty, 'v) manager" where
  "LakeManager_get_lazy_frame eng tn st =
     guarded (TableNameModel tn) (check_table_exists tn st)
       (BaseTableManager_get_lazy_frame eng tn) st"

definition LakeManager_optimize_table ::
  "('row, 'ty, 'v) engine \<Rightarrow> string \<Rightarrow> int \<Rightarrow> int option \<Rightarrow> 'v option \<Rightarrow>
   ('row, 'ty, 'v) manager \<Rightarrow> (exn + unit) \<times> ('row, 'ty, 'v) manager" where
  "LakeManager_optimize_table eng tn target_size max_concurrent_tasks writer_properties st =
     guarded (OptimizeTableModel tn) (check_table_exists tn st)
       (\<lambda>s. discard (BaseTableManager_optimize_table eng tn (Some target_size)
                       max_concurrent_tasks writer_properties s)) st"

definition LakeManager_vacuum_table ::
  "('row, 'ty, 'v) engine \<Rightarrow> string \<Rightarrow> int option \<Rightarrow> bool \<Rightarrow>
   ('row, 'ty, 'v) manager \<Rightarrow> (exn + unit) \<times> ('row, 'ty, 'v) manager" where
  "LakeManager_vacuum_table eng tn retention_hours enforce_retention_duration st =
     guarded (VacuumTableModel tn) (check_table_exists tn st)
       (\<lambda>s. discard (BaseTableManager_vacuum_table eng tn retention_hours
                       enforce_retention_duration s)) st"

definition LakeManager_list_tables ::
  "('row, 'ty, 'v) engine \<Rightarrow> ('row, 'ty, 'v) manager \<Rightarrow>
   (exn + (string \<times> ('row, 'ty, 'v) table_info) list) \<times> ('row, 'ty, 'v) manager" where
  "LakeManager_list_tables eng st = BaseTableManager_list_tables eng st"

definition LakeManager_get_table_info ::
  "('row, 'ty, 'v) engine \<Rightarrow> string \<Rightarrow> ('row, 'ty, 'v) manager \<Rightarrow>
   (exn + ('row, 'ty, 'v) table_info) \<times> ('row, 'ty, 'v) manager" where
  "LakeManager_get_table_info eng tn st =
     guarded (TableNameModel tn) (check_table_exists tn st)
       (BaseTableManager_get_table_info eng tn) st"

definition LakeManager_get_table_schema ::
  "string \<Rightarrow> ('row, 'ty, 'v) manager \<Rightarrow> (exn + 'ty schema) \<times> ('row, 'ty, 'v) manager" where
  "LakeManager_get_table_schema tn st =
     guarded (TableNameModel tn) (check_table_exists tn st)
       (BaseTableManager_get_table_schema tn) st"

text \<open>\<^verbatim>\<open>delete_table\<close> delegates to the abstract method of the table manager, whose
  implementation (\<^verbatim>\<open>LocalTableManager\<close>) is not among the sources: it is the
  parameter \<open>delete_impl\<close>.\<close>

definition LakeManager_delete_table ::
  "(string \<Rightarrow> ('row, 'ty, 'v) manager \<Rightarrow> (exn + bool) \<times> ('row, 'ty, 'v) manager) \<Rightarrow>
   string \<Rightarrow> ('row, 'ty, 'v) manager \<Rightarrow> (exn + bool) \<times> ('row, 'ty, 'v) manager" where
  "LakeManager_delete_table delete_impl tn st =
     guarded (TableNameModel tn) (check_table_exists tn st) (delete_impl tn) st"

text \<open>The exception of a facade method called with a name that is absent from the
  catalog, given the field errors of its parameter model: the validation error when there
  are any, otherwise the error of \<^verbatim>\<open>_check_table_exists\<close>.\<close>

definition rejection :: "field_error list \<Rightarrow> string \<Rightarrow> exn" where
  "rejection errs tn =
     (if errs = [] then ValueError (''Table '' @ tn @ '' does not exist'')
      else ValidationError errs)"

subsection \<open>Observations on the log of engine calls\<close>

text \<open>The merges executed on the engine's merge primitive: the merger and the clauses
  built on it, for every \<open>MergerExecute\<close> of the log, in order.\<close>

fun merger_executions ::
  "('row, 'ty, 'v) engine_call list \<Rightarrow> (('row, 'ty, 'v) pyval \<times> merge_clause list) list" where
  "merger_executions [] = []"
| "merger_executions (MergerExecute m cl # cs) = (m, cl) # merger_executions cs"
| "merger_executions (c # cs) = merger_executions cs"

text \<open>The \<^verbatim>\<open>description\<close> write option a call carries, if any.\<close>

fun description_of :: "('row, 'ty, 'v) engine_call \<Rightarrow> ('row, 'ty, 'v) pyval option" where
  "description_of (WriteDelta p m df (Some dwo) so dmo) = map_of dwo ''description''"
| "description_of c = None"

subsection \<open>Example data\<close>

text \<open>The table of the end-to-end example of the spec: schema \<^verbatim>\<open>{id: int, v: string}\<close>,
  primary key \<^verbatim>\<open>id\<close>; a batch of two rows with the columns in another order. Four
  engines, each given by its answers: one reports table-not-found on a merge and accepts
  every other call, one reports it on an eager read and returns a plan for a lazy scan, one
  reports it on a lazy scan, and one accepts every call.\<close>

definition example_schema :: "string schema" where
  "example_schema = [(''id'', ''Int64''), (''v'', ''Utf8'')]"

definition example_batch :: "(int \<times> string, string) dataframe" where
  "example_batch =
     \<lparr>df_schema = [(''v'', ''Utf8''), (''id'', ''Int64'')], df_rows = [(1, ''b''), (2, ''c'')]\<rparr>"

definition mismatched_batch :: "(int \<times> string, string) dataframe" where
  "mismatched_batch =
     \<lparr>df_schema = [(''id'', ''Int32''), (''v'', ''Utf8'')], df_rows = [(1, ''b'')]\<rparr>"

definition fresh_manager :: "(int \<times> string, string, unit) manager" where
  "fresh_manager = \<lparr>storage_options = None, base_path = ''data'', tables = [], calls = []\<rparr>"

definition example_table :: "string base_table" where
  "example_table = \<lparr>name = ''T'', table_schema = example_schema, primary_keys = ''id''\<rparr>"

definition example_manager :: "(int \<times> string, string, unit) manager" where
  "example_manager =
     \<lparr>storage_options = None, base_path = ''data'', tables = [(''T'', example_table)],
      calls = []\<rparr>"

text \<open>A catalog that holds a table named by one space, as a directory of that name found
  on disk gives.\<close>

definition blank_name_manager :: "(int \<times> string, string, unit) manager" where
  "blank_name_manager =
     \<lparr>storage_options = None, base_path = ''data'',
      tables = [('' '', \<lparr>name = '' '', table_schema = example_schema, primary_keys = ''id''\<rparr>)],
      calls = []\<rparr>"

definition merge_not_found :: "(int \<times> string, string, unit) engine" where
  "merge_not_found tr c =
     (case c of
        WriteDelta p m df dwo so dmo \<Rightarrow>
          if m = ''merge'' then Raises (TableNotFoundError ''no log files'') else Returns PNone
      | _ \<Rightarrow> Returns PNone)"

definition read_not_found :: "(int \<times> string, string, unit) engine" where
  "read_not_found tr c =
     (case c of
        ReadDelta p so \<Rightarrow> Raises (TableNotFoundError ''no log files'')
      | ScanDelta p so \<Rightarrow> Returns (PObj ())
      | _ \<Rightarrow> Returns PNone)"

definition scan_not_found :: "(int \<times> string, string, unit) engine" where
  "scan_not_found tr c =
     (case c of
        ScanDelta p so \<Rightarrow> Raises (TableNotFoundError ''no log files'')
      | _ \<Rightarrow> Returns PNone)"

definition accepting :: "(int \<times> string, string, unit) engine" where
  "accepting tr c =
     (case c of
        GlobParquet p \<Rightarrow> Returns (PList [PStr ''part-0.parquet''])
      | Version dt \<Rightarrow> Returns (PInt 0)
      | _ \<Rightarrow> Returns (PObj ()))"

section \<open>Properties\<close>

subsection \<open>Helper facts\<close>

lemma guarded_simps:
  "guarded (Inl e) c body st = (Inl e, st)"
  "guarded (Inr u) (Inl e) body st = (Inl e, st)"
  "guarded (Inr u) (Inr u') body st = body st"
  by (simp_all add: guarded_def)

lemma model_validate_Nil: "model_validate [] = Inr ()"
  by (simp add: model_validate_def)

lemma create_table_fresh:
  assumes "validate_table_name tn = []" and "map_of (tables st) tn = None"
  shows "LakeManager_create_table tn sch pks st =
           (Inr (), st\<lparr>tables := AList.update tn
              \<lparr>name = tn, table_schema = sch, primary_keys = join_str '','' (pk_columns pks)\<rparr>
              (tables st)\<rparr>)"
  using assms
  by (cases pks)
     (simp_all add: LakeManager_create_table_def TableCreateModel_def model_validate_Nil
        check_table_not_exists_def guarded_simps BaseTableManager_create_table_def)

lemma get_table_info_Inr:
  assumes "BaseTableManager_get_table_info eng tn st = (Inr info, st')"
      and "map_of (tables st) tn = Some bt"
  shows "info_schema info = table_schema bt \<and> info_primary_keys info = primary_keys bt"
  using assms
  by (auto simp: BaseTableManager_get_table_info_def call_value_def call_engine_def
      split: reply.splits pyval.splits prod.splits sum.splits option.splits)

subsection \<open>The catalog\<close>

text \<open>
  Claim C6. For every table name that is valid for \<^verbatim>\<open>create\<close> (not blank, not yet in the
  catalog), every schema and every primary-key specification (one column name or a list of
  column names), \<^verbatim>\<open>create_table\<close> succeeds, and a lookup of the name afterwards gives
  a definition with the declared schema and with the declared key columns joined with
  commas in declared order: in the catalog, through \<^verbatim>\<open>get_table_schema\<close>, and through
  \<^verbatim>\<open>get_table_info\<close> whenever the engine lets it return.
\<close>

theorem create_then_lookup:
  assumes valid: "validate_table_name tn = []"
      and fresh: "map_of (tables st) tn = None"
  shows "\<exists>st'. LakeManager_create_table tn sch pks st = (Inr (), st') \<and>
           map_of (tables st') tn =
             Some \<lparr>name = tn, table_schema = sch,
                   primary_keys = join_str '','' (pk_columns pks)\<rparr> \<and>
           LakeManager_get_table_schema tn st' = (Inr sch, st') \<and>
           (\<forall>eng info st''.
              LakeManager_get_table_info eng tn st' = (Inr info, st'') \<longrightarrow>
              info_schema info = sch \<and>
              info_primary_keys info = join_str '','' (pk_columns pks))"
proof -
  let ?bt = "\<lparr>name = tn, table_schema = sch, primary_keys = join_str '','' (pk_columns pks)\<rparr>"
  let ?st' = "st\<lparr>tables := AList.update tn ?bt (tables st)\<rparr>"
  have created: "LakeManager_create_table tn sch pks st = (Inr (), ?st')"
    using valid fresh by (rule create_table_fresh)
  have look: "map_of (tables ?st') tn = Some ?bt"
    by (simp add: update_conv')
  have schema: "LakeManager_get_table_schema tn ?st' = (Inr sch, ?st')"
    using valid look
    by (simp add: LakeManager_get_table_schema_def TableNameModel_def model_validate_Nil
        check_table_exists_def guarded_simps BaseTableManager_get_table_schema_def)
  have info: "info_schema info = sch \<and> info_primary_keys info = join_str '','' (pk_columns pks)"
    if "LakeManager_get_table_info eng tn ?st' = (Inr info, st'')" for eng info st''
  proof -
    from that valid look
    have "BaseTableManager_get_table_info eng tn ?st' = (Inr info, st'')"
      by (simp add: LakeManager_get_table_info_def TableNameModel_def model_validate_Nil
          check_table_exists_def guarded_simps)
    from get_table_info_Inr[OF this look] show ?thesis by simp
  qed
  from created look schema info show ?thesis by blast
qed

text \<open>The witness creates the table of the example with one key column on an empty
  catalog, and then a second table with the three key columns \<^verbatim>\<open>c\<close>, \<^verbatim>\<open>a\<close>, \<^verbatim>\<open>b\<close>,
  declared in another order than the schema has them.\<close>

theorem create_then_lookup_witness:
  "validate_table_name ''T'' = [] \<and> map_of (tables fresh_manager) ''T'' = None \<and>
   LakeManager_create_table ''T'' example_schema (PKList [''id'']) fresh_manager =
     (Inr (), example_manager) \<and>
   map_of (tables example_manager) ''T'' =
     Some \<lparr>name = ''T'', table_schema = example_schema, primary_keys = ''id''\<rparr> \<and>
   LakeManager_get_table_schema ''T'' example_manager = (Inr example_schema, example_manager) \<and>
   fst (LakeManager_get_table_info accepting ''T'' example_manager) =
     Inr \<lparr>info_exists = True, info_version = PInt 0, info_metadata = PObj (),
          info_size = 1, info_schema = example_schema, info_primary_keys = ''id''\<rparr> \<and>
   validate_table_name ''U'' = [] \<and> map_of (tables example_manager) ''U'' = None \<and>
   LakeManager_create_table ''U'' [(''a'', ''Int64''), (''b'', ''Utf8''), (''c'', ''Utf8'')]
       (PKList [''c'', ''a'', ''b'']) example_manager =
     (Inr (),
      example_manager\<lparr>tables :=
        [(''T'', example_table),
         (''U'', \<lparr>name = ''U'',
                 table_schema = [(''a'', ''Int64''), (''b'', ''Utf8''), (''c'', ''Utf8'')],
                 primary_keys = ''c,a,b''\<rparr>)]\<rparr>) \<and>
   map_of (tables (snd (LakeManager_create_table ''U''
       [(''a'', ''Int64''), (''b'', ''Utf8''), (''c'', ''Utf8'')]
       (PKList [''c'', ''a'', ''b'']) example_manager))) ''U'' =
     Some \<lparr>name = ''U'',
           table_schema = [(''a'', ''Int64''), (''b'', ''Utf8''), (''c'', ''Utf8'')],
           primary_keys = ''c,a,b''\<rparr> \<and>
   fst (LakeManager_get_table_schema ''U'' (snd (LakeManager_create_table ''U''
       [(''a'', ''Int64''), (''b'', ''Utf8''), (''c'', ''Utf8'')]
       (PKList [''c'', ''a'', ''b'']) example_manager))) =
     Inr [(''a'', ''Int64''), (''b'', ''Utf8''), (''c'', ''Utf8'')] \<and>
   fst (LakeManager_get_table_info accepting ''U'' (snd (LakeManager_create_table ''U''
       [(''a'', ''Int64''), (''b'', ''Utf8''), (''c'', ''Utf8'')]
       (PKList [''c'', ''a'', ''b'']) example_manager))) =
     Inr \<lparr>info_exists = True, info_version = PInt 0, info_metadata = PObj (),
          info_size = 1,
          info_schema = [(''a'', ''Int64''), (''b'', ''Utf8''), (''c'', ''Utf8'')],
          info_primary_keys = ''c,a,b''\<rparr>"
proof -
  let ?sch = "[(''a'', ''Int64''), (''b'', ''Utf8''), (''c'', ''Utf8'')] :: string schema"
  let ?u = "\<lparr>name = ''U'', table_schema = ?sch, primary_keys = ''c,a,b''\<rparr>"
  let ?st2 = "example_manager\<lparr>tables := [(''T'', example_table), (''U'', ?u)]\<rparr>"
  have valid: "validate_table_name ''T'' = []"
    by (simp add: validate_table_name_def strip_def isspace_def py_whitespace_def)
  have fresh: "map_of (tables fresh_manager) ''T'' = None"
    by (simp add: fresh_manager_def)
  have created: "LakeManager_create_table ''T'' example_schema (PKList [''id'']) fresh_manager =
     (Inr (), example_manager)"
    using create_table_fresh[OF valid fresh, of example_schema "PKList [''id'']"]
    by (simp add: fresh_manager_def example_manager_def example_table_def)
  have info: "LakeManager_get_table_info accepting ''T'' example_manager =
     (Inr \<lparr>info_exists = True, info_version = PInt 0, info_metadata = PObj (),
          info_size = 1, info_schema = example_schema, info_primary_keys = ''id''\<rparr>,
      example_manager\<lparr>calls := [OpenDeltaTable (PathJoin ''data'' ''T'') None, Version (PObj ()),
        Metadata (PObj ()), GlobParquet (PathJoin ''data'' ''T'')]\<rparr>)"
    using valid
    by (simp add: LakeManager_get_table_info_def TableNameModel_def model_validate_Nil
        check_table_exists_def guarded_simps BaseTableManager_get_table_info_def
        call_value_def call_engine_def example_manager_def example_table_def accepting_def)
  from create_then_lookup[OF valid fresh, of example_schema "PKList [''id'']"]
  obtain st' where
    c: "LakeManager_create_table ''T'' example_schema (PKList [''id'']) fresh_manager = (Inr (), st')"
    and l: "map_of (tables st') ''T'' =
       Some \<lparr>name = ''T'', table_schema = example_schema,
             primary_keys = join_str '','' (pk_columns (PKList [''id'']))\<rparr>"
    and s: "LakeManager_get_table_schema ''T'' st' = (Inr example_schema, st')"
    by blast
  from c created have "st' = example_manager" by simp
  with l s valid fresh created info have first:
    "validate_table_name ''T'' = [] \<and> map_of (tables fresh_manager) ''T'' = None \<and>
     LakeManager_create_table ''T'' example_schema (PKList [''id'']) fresh_manager =
       (Inr (), example_manager) \<and>
     map_of (tables example_manager) ''T'' =
       Some \<lparr>name = ''T'', table_schema = example_schema, primary_keys = ''id''\<rparr> \<and>
     LakeManager_get_table_schema ''T'' example_manager = (Inr example_schema, example_manager) \<and>
     fst (LakeManager_get_table_info accepting ''T'' example_manager) =
       Inr \<lparr>info_exists = True, info_version = PInt 0, info_metadata = PObj (),
            info_size = 1, info_schema = example_schema, info_primary_keys = ''id''\<rparr>"
    by simp
  have valid_u: "validate_table_name ''U'' = []"
    by (simp add: validate_table_name_def strip_def isspace_def py_whitespace_def)
  have fresh_u: "map_of (tables example_manager) ''U'' = None"
    by (simp add: example_manager_def)
  have created_u: "LakeManager_create_table ''U'' ?sch (PKList [''c'', ''a'', ''b''])
      example_manager = (Inr (), ?st2)"
    using valid_u
    by (simp add: LakeManager_create_table_def TableCreateModel_def model_validate_Nil
        check_table_not_exists_def guarded_simps BaseTableManager_create_table_def
        example_manager_def)
  have info_u: "fst (LakeManager_get_table_info accepting ''U'' ?st2) =
     Inr \<lparr>info_exists = True, info_version = PInt 0, info_metadata = PObj (),
          info_size = 1, info_schema = ?sch, info_primary_keys = ''c,a,b''\<rparr>"
    using valid_u
    by (simp add: LakeManager_get_table_info_def TableNameModel_def model_validate_Nil
        check_table_exists_def guarded_simps BaseTableManager_get_table_info_def
        call_value_def call_engine_def example_manager_def accepting_def)
  from create_then_lookup[OF valid_u fresh_u, of ?sch "PKList [''c'', ''a'', ''b'']"]
  obtain st'' where
    c2: "LakeManager_create_table ''U'' ?sch (PKList [''c'', ''a'', ''b'']) example_manager =
          (Inr (), st'')"
    and l2: "map_of (tables st'') ''U'' =
       Some \<lparr>name = ''U'', table_schema = ?sch,
             primary_keys = join_str '','' (pk_columns (PKList [''c'', ''a'', ''b'']))\<rparr>"
    and s2: "LakeManager_get_table_schema ''U'' st'' = (Inr ?sch, st'')"
    by blast
  from c2 created_u have st2: "st'' = ?st2" by simp
  from l2 s2 valid_u fresh_u created_u info_u have second:
    "validate_table_name ''U'' = [] \<and> map_of (tables example_manager) ''U'' = None \<and>
     LakeManager_create_table ''U'' ?sch (PKList [''c'', ''a'', ''b'']) example_manager =
       (Inr (), ?st2) \<and>
     map_of (tables ?st2) ''U'' = Some ?u \<and>
     fst (LakeManager_get_table_schema ''U'' ?st2) = Inr ?sch \<and>
     fst (LakeManager_get_table_info accepting ''U'' ?st2) =
       Inr \<lparr>info_exists = True, info_version = PInt 0, info_metadata = PObj (),
            info_size = 1, info_schema = ?sch, info_primary_keys = ''c,a,b''\<rparr>"
    unfolding st2 by simp
  from first second show ?thesis
    by (simp only: created_u snd_conv) 
qed

lemma guarded_absent:
  assumes "map_of (tables st) tn = None"
  shows "guarded (model_validate errs) (check_table_exists tn st) body st =
           (Inl (rejection errs tn), st)"
  using assms
  by (simp add: guarded_def model_validate_def check_table_exists_def rejection_def)

text \<open>
  Claim C7, as amended. For every catalog state and every name already present in it,
  \<^verbatim>\<open>create_table\<close> fails and leaves the whole state, the catalog included, as it was.
  The failure is the duplicate-table error when the name is not blank; a blank name is
  rejected by the validation of the name, which runs before the catalog is consulted.
\<close>

theorem create_existing_name_fails:
  assumes present: "map_of (tables st) tn \<noteq> None"
  shows "LakeManager_create_table tn sch pks st =
           (Inl (if validate_table_name tn = []
                 then ValueError (''Table '' @ tn @ '' already exists'')
                 else ValidationError (validate_table_name tn)), st)"
  using present
  by (simp add: LakeManager_create_table_def TableCreateModel_def model_validate_def
      check_table_not_exists_def guarded_def)

theorem create_existing_name_fails_witness:
  "map_of (tables example_manager) ''T'' \<noteq> None \<and>
   LakeManager_create_table ''T'' [(''x'', ''Utf8'')] (PKStr ''x'') example_manager =
     (Inl (ValueError ''Table T already exists''), example_manager)"
proof -
  have present: "map_of (tables example_manager) ''T'' \<noteq> None"
    by (simp add: example_manager_def)
  have valid: "validate_table_name ''T'' = []"
    by (simp add: validate_table_name_def strip_def isspace_def py_whitespace_def)
  from create_existing_name_fails[OF present, of "[(''x'', ''Utf8'')]" "PKStr ''x''"] valid present
  show ?thesis by simp
qed

text \<open>
  The claim as first stated (a duplicate-table error for every name already present)
  fails for a catalog that holds a table named by one space.
\<close>

theorem create_blank_existing_name_counterexample:
  "map_of (tables blank_name_manager) '' '' \<noteq> None \<and>
   LakeManager_create_table '' '' example_schema (PKStr ''id'') blank_name_manager =
     (Inl (ValidationError [FieldValueError ''table_name'' ''Table name cannot be empty'']),
      blank_name_manager) \<and>
   fst (LakeManager_create_table '' '' example_schema (PKStr ''id'') blank_name_manager) \<noteq>
     Inl (ValueError (''Table '' @ '' '' @ '' already exists''))"
  by (simp add: LakeManager_create_table_def TableCreateModel_def model_validate_def
      check_table_not_exists_def guarded_def validate_table_name_def strip_def isspace_def
      py_whitespace_def blank_name_manager_def)

subsection \<open>The facade\<close>

text \<open>
  Claim C8, as amended. Every facade method other than \<^verbatim>\<open>create_table\<close> that takes a
  table name (append, merge, overwrite, eager and lazy read, optimize, vacuum, info, schema
  lookup, delete), called with a name that is not in the catalog, fails and leaves the
  whole state as it was: no entry of the catalog changes and no call reaches the engine.
  The failure is the unknown-table error when the parameter model accepts the arguments
  (a name that is not blank, and for merge a known merge condition; optimize and vacuum do
  not validate the name), and the validation error of the parameter model otherwise.
\<close>

theorem unknown_table_rejected:
  assumes absent: "map_of (tables st) tn = None"
  shows "LakeManager_append_table eng tn df dwo st =
           (Inl (rejection (validate_table_name tn) tn), st) \<and>
         LakeManager_merge_table eng tn df mc dwo st =
           (Inl (rejection (validate_table_name tn @ validate_merge_condition mc) tn), st) \<and>
         LakeManager_overwrite_table eng tn df dwo st =
           (Inl (rejection (validate_table_name tn) tn), st) \<and>
         LakeManager_get_data_frame eng tn st =
           (Inl (rejection (validate_table_name tn) tn), st) \<and>
         LakeManager_get_lazy_frame eng tn st =
           (Inl (rejection (validate_table_name tn) tn), st) \<and>
         LakeManager_optimize_table eng tn ts mct wp st =
           (Inl (ValueError (''Table '' @ tn @ '' does not exist'')), st) \<and>
         LakeManager_vacuum_table eng tn rh erd st =
           (Inl (ValueError (''Table '' @ tn @ '' does not exist'')), st) \<and>
         LakeManager_get_table_info eng tn st =
           (Inl (rejection (validate_table_name tn) tn), st) \<and>
         LakeManager_get_table_schema tn st =
           (Inl (rejection (validate_table_name tn) tn), st) \<and>
         LakeManager_delete_table delete_impl tn st =
           (Inl (rejection (validate_table_name tn) tn), st)"
proof -
  have opt: "LakeManager_optimize_table eng tn ts mct wp st =
           (Inl (ValueError (''Table '' @ tn @ '' does not exist'')), st)"
    using absent
    by (simp add: LakeManager_optimize_table_def OptimizeTableModel_def guarded_def
        check_table_exists_def)
  have vac: "LakeManager_vacuum_table eng tn rh erd st =
           (Inl (ValueError (''Table '' @ tn @ '' does not exist'')), st)"
    using absent
    by (simp add: LakeManager_vacuum_table_def VacuumTableModel_def guarded_def
        check_table_exists_def)
  show ?thesis
    unfolding LakeManager_append_table_def LakeManager_merge_table_def
      LakeManager_overwrite_table_def LakeManager_get_data_frame_def
      LakeManager_get_lazy_frame_def LakeManager_get_table_info_def
      LakeManager_get_table_schema_def LakeManager_delete_table_def
      TableOperationModel_def MergeOperationModel_def TableNameModel_def
    using opt vac by (simp add: guarded_absent[OF absent])
qed

theorem unknown_table_rejected_witness:
  "map_of (tables example_manager) ''nope'' = None \<and>
   LakeManager_append_table accepting ''nope'' example_batch None example_manager =
     (Inl (ValueError ''Table nope does not exist''), example_manager) \<and>
   LakeManager_merge_table accepting ''nope'' example_batch ''upsert'' None example_manager =
     (Inl (ValueError ''Table nope does not exist''), example_manager) \<and>
   LakeManager_overwrite_table accepting ''nope'' example_batch None example_manager =
     (Inl (ValueError ''Table nope does not exist''), example_manager) \<and>
   LakeManager_get_data_frame accepting ''nope'' example_manager =
     (Inl (ValueError ''Table nope does not exist''), example_manager) \<and>
   LakeManager_get_lazy_frame accepting ''nope'' example_manager =
     (Inl (ValueError ''Table nope does not exist''), example_manager) \<and>
   LakeManager_optimize_table accepting ''nope'' 1024 None None example_manager =
     (Inl (ValueError ''Table nope does not exist''), example_manager) \<and>
   LakeManager_vacuum_table accepting ''nope'' (Some 168) False example_manager =
     (Inl (ValueError ''Table nope does not exist''), example_manager) \<and>
   LakeManager_get_table_info accepting ''nope'' example_manager =
     (Inl (ValueError ''Table nope does not exist''), example_manager) \<and>
   LakeManager_get_table_schema ''nope'' example_manager =
     (Inl (ValueError ''Table nope does not exist''), example_manager) \<and>
   LakeManager_delete_table (\<lambda>tn st. (Inr True, st\<lparr>tables := []\<rparr>)) ''nope'' example_manager =
     (Inl (ValueError ''Table nope does not exist''), example_manager)"
proof -
  have absent: "map_of (tables example_manager) ''nope'' = None"
    by (simp add: example_manager_def)
  have valid: "validate_table_name ''nope'' = []"
    by (simp add: validate_table_name_def strip_def isspace_def py_whitespace_def)
  have cond: "validate_merge_condition ''upsert'' = []"
    by (simp add: validate_merge_condition_def merge_conditions_def)
  have rej: "rejection [] ''nope'' = ValueError ''Table nope does not exist''"
    by (simp add: rejection_def)
  from unknown_table_rejected[OF absent, of accepting example_batch None "''upsert''"
      1024 None None "Some 168" False "\<lambda>tn st. (Inr True, st\<lparr>tables := []\<rparr>)"]
  show ?thesis using absent by (simp add: valid cond rej)
qed

text \<open>
  The claim as first stated (an unknown-table error for every absent name) fails for the
  empty name: the model of the parameters rejects it first.
\<close>

theorem unknown_blank_name_counterexample:
  "map_of (tables example_manager) '''' = None \<and>
   LakeManager_append_table accepting '''' example_batch None example_manager =
     (Inl (ValidationError [FieldValueError ''table_name'' ''Table name cannot be empty'']),
      example_manager) \<and>
   fst (LakeManager_append_table accepting '''' example_batch None example_manager) \<noteq>
     Inl (ValueError (''Table '' @ '''' @ '' does not exist''))"
  by (simp add: LakeManager_append_table_def TableOperationModel_def model_validate_def
      guarded_def validate_table_name_def example_manager_def)

subsection \<open>The catalog is touched by create and delete only\<close>

lemma tables_call_engine: "tables (snd (call_engine eng c st)) = tables st"
  by (simp add: call_engine_def)

lemma tables_call_unit: "tables (snd (call_unit eng c st)) = tables st"
  by (simp add: call_unit_def call_engine_def split: reply.splits)

lemma tables_call_value: "tables (snd (call_value eng c st)) = tables st"
  by (simp add: call_value_def call_engine_def split: reply.splits)

lemma tables_call_value_eq:
  "call_value eng c st = (r, st') \<Longrightarrow> tables st' = tables st"
  using tables_call_value[of eng c st] by simp

lemma tables_execute_if: "tables (snd (execute_if eng b m cl r)) = tables (snd r)"
  by (cases r) (simp add: execute_if_def call_engine_def split: option.splits reply.splits)

lemma tables_merge_try: "tables (snd (merge_try eng tn df mc pk st)) = tables st"
  by (simp add: merge_try_def call_engine_def tables_execute_if Let_def split: reply.splits)

lemma tables_merge_try_eq:
  "merge_try eng tn df mc pk st = (r, st') \<Longrightarrow> tables st' = tables st"
  using tables_merge_try[of eng tn df mc pk st] by simp

lemma tables_append: "tables (snd (BaseTableManager_append eng tn df dwo st)) = tables st"
  by (simp add: BaseTableManager_append_def tables_call_unit split: option.splits)

lemma tables_overwrite: "tables (snd (BaseTableManager_overwrite eng tn df dwo st)) = tables st"
  by (simp add: BaseTableManager_overwrite_def tables_call_unit split: option.splits)

lemma tables_merge: "tables (snd (BaseTableManager_merge eng tn df mc dwo st)) = tables st"
proof (cases "map_of (tables st) tn")
  case None
  then show ?thesis by (simp add: BaseTableManager_merge_def)
next
  case (Some bt)
  obtain r st' where mt: "merge_try eng tn df mc (primary_keys bt) st = (r, st')"
    by (cases "merge_try eng tn df mc (primary_keys bt) st")
  from tables_merge_try_eq[OF mt] have "tables st' = tables st" .
  with Some mt show ?thesis
    by (simp add: BaseTableManager_merge_def tables_call_unit split: option.splits)
qed

lemma tables_get_data_frame:
  "tables (snd (BaseTableManager_get_data_frame eng tn st)) = tables st"
  by (simp add: BaseTableManager_get_data_frame_def call_engine_def
      split: reply.splits option.splits)

lemma tables_get_lazy_frame:
  "tables (snd (BaseTableManager_get_lazy_frame eng tn st)) = tables st"
  by (simp add: BaseTableManager_get_lazy_frame_def call_engine_def
      split: reply.splits option.splits)

lemma tables_optimize_table:
  "tables (snd (BaseTableManager_optimize_table eng tn ts mct wp st)) = tables st"
  by (auto simp: BaseTableManager_optimize_table_def tables_call_value
      split: prod.splits sum.splits dest: tables_call_value_eq)

lemma tables_vacuum_table:
  "tables (snd (BaseTableManager_vacuum_table eng tn rh erd st)) = tables st"
  by (auto simp: BaseTableManager_vacuum_table_def tables_call_value
      split: prod.splits sum.splits dest: tables_call_value_eq)

lemma tables_get_table_info:
  "tables (snd (BaseTableManager_get_table_info eng tn st)) = tables st"
  by (auto simp: BaseTableManager_get_table_info_def
      split: prod.splits sum.splits option.splits pyval.splits dest!: tables_call_value_eq)

lemma tables_get_table_info_eq:
  "BaseTableManager_get_table_info eng tn st = (r, st') \<Longrightarrow> tables st' = tables st"
  using tables_get_table_info[of eng tn st] by simp

lemma tables_list_tables_loop:
  "tables (snd (list_tables_loop eng ns st)) = tables st"
proof (induction ns arbitrary: st)
  case Nil
  then show ?case by simp
next
  case (Cons n ns)
  show ?case
  proof (cases "BaseTableManager_get_table_info eng n st")
    case (Pair r st')
    note info = tables_get_table_info_eq[OF Pair]
    show ?thesis
    proof (cases r)
      case (Inl e)
      with Pair info show ?thesis by simp
    next
      case (Inr i)
      obtain r2 st2 where rest: "list_tables_loop eng ns st' = (r2, st2)"
        by (cases "list_tables_loop eng ns st'")
      from Cons.IH[of st'] rest have "tables st2 = tables st'" by simp
      with Pair Inr rest info show ?thesis by (simp split: sum.splits)
    qed
  qed
qed

lemma tables_get_table_schema:
  "tables (snd (BaseTableManager_get_table_schema tn st)) = tables st"
  by (simp add: BaseTableManager_get_table_schema_def split: option.splits)

lemma tables_guarded:
  "(\<And>s. tables (snd (body s)) = tables s) \<Longrightarrow>
   tables (snd (guarded p c body st)) = tables st"
  by (simp add: guarded_def split: sum.splits)

lemma tables_discard: "tables (snd (discard r)) = tables (snd r)"
  by (cases r) (simp add: discard_def split: sum.splits)

text \<open>
  Claim C10. Append, merge, overwrite, optimize, vacuum, the eager and the lazy read, info,
  listing and schema lookup leave the catalog (the table definitions, each with its name,
  schema and primary keys) as it was, whatever the engine answers and whether they return
  or raise: in the table manager and in the facade. The facade's remaining methods are
  create and delete.
\<close>

theorem catalog_unchanged:
  "tables (snd (BaseTableManager_append eng tn df dwo st)) = tables st \<and>
   tables (snd (BaseTableManager_merge eng tn df mc dwo st)) = tables st \<and>
   tables (snd (BaseTableManager_overwrite eng tn df dwo st)) = tables st \<and>
   tables (snd (BaseTableManager_optimize_table eng tn ts mct wp st)) = tables st \<and>
   tables (snd (BaseTableManager_vacuum_table eng tn rh erd st)) = tables st \<and>
   tables (snd (BaseTableManager_get_data_frame eng tn st)) = tables st \<and>
   tables (snd (BaseTableManager_get_lazy_frame eng tn st)) = tables st \<and>
   tables (snd (BaseTableManager_get_table_info eng tn st)) = tables st \<and>
   tables (snd (BaseTableManager_list_tables eng st)) = tables st \<and>
   tables (snd (BaseTableManager_get_table_schema tn st)) = tables st \<and>
   tables (snd (LakeManager_append_table eng tn df dwo st)) = tables st \<and>
   tables (snd (LakeManager_merge_table eng tn df mc dwo st)) = tables st \<and>
   tables (snd (LakeManager_overwrite_table eng tn df dwo st)) = tables st \<and>
   tables (snd (LakeManager_optimize_table eng tn tsz mct wp st)) = tables st \<and>
   tables (snd (LakeManager_vacuum_table eng tn rh erd st)) = tables st \<and>
   tables (snd (LakeManager_get_data_frame eng tn st)) = tables st \<and>
   tables (snd (LakeManager_get_lazy_frame eng tn st)) = tables st \<and>
   tables (snd (LakeManager_get_table_info eng tn st)) = tables st \<and>
   tables (snd (LakeManager_list_tables eng st)) = tables st \<and>
   tables (snd (LakeManager_get_table_schema tn st)) = tables st"
  unfolding LakeManager_append_table_def LakeManager_merge_table_def
    LakeManager_overwrite_table_def LakeManager_optimize_table_def
    LakeManager_vacuum_table_def LakeManager_get_data_frame_def
    LakeManager_get_lazy_frame_def LakeManager_get_table_info_def
    LakeManager_list_tables_def LakeManager_get_table_schema_def
    BaseTableManager_list_tables_def
  by (simp add: tables_guarded tables_discard tables_append tables_merge tables_overwrite
      tables_optimize_table tables_vacuum_table tables_get_data_frame tables_get_lazy_frame
      tables_get_table_info tables_list_tables_loop tables_get_table_schema)

subsection \<open>Reads\<close>

text \<open>
  Claim C9. When the engine reports table-not-found on the eager read of a name, the eager
  read returns the empty dataframe of the declared schema if the name is in the catalog, and
  raises exactly when the name is absent from the catalog; when the engine reports it on
  the lazy scan, the lazy read returns the empty lazy frame of the declared schema if the
  name is in the catalog, and raises exactly when it is absent. Each read depends on its
  own call only. Through the facade, a name that is not blank and is in the catalog is read
  the same way.
\<close>

theorem read_of_unwritten_table:
  "(\<forall>m. eng (calls st) (ReadDelta (PathJoin (base_path st) tn) (storage_options st)) =
          Raises (TableNotFoundError m) \<longrightarrow>
        fst (BaseTableManager_get_data_frame eng tn st) =
          (case map_of (tables st) tn of
             Some bt \<Rightarrow> Inr (PDataFrame \<lparr>df_schema = table_schema bt, df_rows = []\<rparr>)
           | None \<Rightarrow>
               Inl (ValueError
                 (''Table '' @ [CHR 0x27] @ tn @ [CHR 0x27] @
                  '' does not exist or has no data: '' @ m))) \<and>
        (isl (fst (BaseTableManager_get_data_frame eng tn st)) \<longleftrightarrow>
           map_of (tables st) tn = None) \<and>
        (\<forall>bt. validate_table_name tn = [] \<and> map_of (tables st) tn = Some bt \<longrightarrow>
           fst (LakeManager_get_data_frame eng tn st) =
             Inr (PDataFrame \<lparr>df_schema = table_schema bt, df_rows = []\<rparr>))) \<and>
   (\<forall>m. eng (calls st) (ScanDelta (PathJoin (base_path st) tn) (storage_options st)) =
          Raises (TableNotFoundError m) \<longrightarrow>
        fst (BaseTableManager_get_lazy_frame eng tn st) =
          (case map_of (tables st) tn of
             Some bt \<Rightarrow> Inr (PLazyFrame \<lparr>df_schema = table_schema bt, df_rows = []\<rparr>)
           | None \<Rightarrow>
               Inl (ValueError
                 (''Table '' @ [CHR 0x27] @ tn @ [CHR 0x27] @
                  '' does not exist or has no data: '' @ m))) \<and>
        (isl (fst (BaseTableManager_get_lazy_frame eng tn st)) \<longleftrightarrow>
           map_of (tables st) tn = None) \<and>
        (\<forall>bt. validate_table_name tn = [] \<and> map_of (tables st) tn = Some bt \<longrightarrow>
           fst (LakeManager_get_lazy_frame eng tn st) =
             Inr (PLazyFrame \<lparr>df_schema = table_schema bt, df_rows = []\<rparr>)))"
proof -
  have eager:
    "fst (BaseTableManager_get_data_frame eng tn st) =
          (case map_of (tables st) tn of
             Some bt \<Rightarrow> Inr (PDataFrame \<lparr>df_schema = table_schema bt, df_rows = []\<rparr>)
           | None \<Rightarrow>
               Inl (ValueError
                 (''Table '' @ [CHR 0x27] @ tn @ [CHR 0x27] @
                  '' does not exist or has no data: '' @ m))) \<and>
        (isl (fst (BaseTableManager_get_data_frame eng tn st)) \<longleftrightarrow>
           map_of (tables st) tn = None) \<and>
        (\<forall>bt. validate_table_name tn = [] \<and> map_of (tables st) tn = Some bt \<longrightarrow>
           fst (LakeManager_get_data_frame eng tn st) =
             Inr (PDataFrame \<lparr>df_schema = table_schema bt, df_rows = []\<rparr>))"
    if r: "eng (calls st) (ReadDelta (PathJoin (base_path st) tn) (storage_options st)) =
          Raises (TableNotFoundError m)" for m
  proof -
    have e: "fst (BaseTableManager_get_data_frame eng tn st) =
          (case map_of (tables st) tn of
             Some bt \<Rightarrow> Inr (PDataFrame \<lparr>df_schema = table_schema bt, df_rows = []\<rparr>)
           | None \<Rightarrow>
               Inl (ValueError
                 (''Table '' @ [CHR 0x27] @ tn @ [CHR 0x27] @
                  '' does not exist or has no data: '' @ m)))"
      using r
      by (simp add: BaseTableManager_get_data_frame_def call_engine_def empty_frame_def
          not_exist_message_def split: option.splits)
    have i: "isl (fst (BaseTableManager_get_data_frame eng tn st)) \<longleftrightarrow>
           map_of (tables st) tn = None"
      by (simp add: e split: option.splits)
    have f: "fst (LakeManager_get_data_frame eng tn st) =
             Inr (PDataFrame \<lparr>df_schema = table_schema bt, df_rows = []\<rparr>)"
      if "validate_table_name tn = []" and "map_of (tables st) tn = Some bt" for bt
      using that e
      by (simp add: LakeManager_get_data_frame_def TableNameModel_def model_validate_def
          check_table_exists_def guarded_def)
    from e i f show ?thesis by blast
  qed
  have lazy:
    "fst (BaseTableManager_get_lazy_frame eng tn st) =
          (case map_of (tables st) tn of
             Some bt \<Rightarrow> Inr (PLazyFrame \<lparr>df_schema = table_schema bt, df_rows = []\<rparr>)
           | None \<Rightarrow>
               Inl (ValueError
                 (''Table '' @ [CHR 0x27] @ tn @ [CHR 0x27] @
                  '' does not exist or has no data: '' @ m))) \<and>
        (isl (fst (BaseTableManager_get_lazy_frame eng tn st)) \<longleftrightarrow>
           map_of (tables st) tn = None) \<and>
        (\<forall>bt. validate_table_name tn = [] \<and> map_of (tables st) tn = Some bt \<longrightarrow>
           fst (LakeManager_get_lazy_frame eng tn st) =
             Inr (PLazyFrame \<lparr>df_schema = table_schema bt, df_rows = []\<rparr>))"
    if r: "eng (calls st) (ScanDelta (PathJoin (base_path st) tn) (storage_options st)) =
          Raises (TableNotFoundError m)" for m
  proof -
    have e: "fst (BaseTableManager_get_lazy_frame eng tn st) =
          (case map_of (tables st) tn of
             Some bt \<Rightarrow> Inr (PLazyFrame \<lparr>df_schema = table_schema bt, df_rows = []\<rparr>)
           | None \<Rightarrow>
               Inl (ValueError
                 (''Table '' @ [CHR 0x27] @ tn @ [CHR 0x27] @
                  '' does not exist or has no data: '' @ m)))"
      using r
      by (simp add: BaseTableManager_get_lazy_frame_def call_engine_def empty_frame_def
          not_exist_message_def split: option.splits)
    have i: "isl (fst (BaseTableManager_get_lazy_frame eng tn st)) \<longleftrightarrow>
           map_of (tables st) tn = None"
      by (simp add: e split: option.splits)
    have f: "fst (LakeManager_get_lazy_frame eng tn st) =
             Inr (PLazyFrame \<lparr>df_schema = table_schema bt, df_rows = []\<rparr>)"
      if "validate_table_name tn = []" and "map_of (tables st) tn = Some bt" for bt
      using that e
      by (simp add: LakeManager_get_lazy_frame_def TableNameModel_def model_validate_def
          check_table_exists_def guarded_def)
    from e i f show ?thesis by blast
  qed
  from eager lazy show ?thesis by blast
qed

text \<open>The witness reads through an engine that reports table-not-found on the eager read
  only (its lazy scan returns a plan, which the lazy read hands on), and through one that
  reports it on the lazy scan.\<close>

theorem read_of_unwritten_table_witness:
  "read_not_found (calls example_manager)
     (ReadDelta (PathJoin (base_path example_manager) ''T'') (storage_options example_manager)) =
     Raises (TableNotFoundError ''no log files'') \<and>
   read_not_found (calls example_manager)
     (ScanDelta (PathJoin (base_path example_manager) ''T'') (storage_options example_manager)) =
     Returns (PObj ()) \<and>
   fst (BaseTableManager_get_data_frame read_not_found ''T'' example_manager) =
     Inr (PDataFrame \<lparr>df_schema = [(''id'', ''Int64''), (''v'', ''Utf8'')], df_rows = []\<rparr>) \<and>
   fst (LakeManager_get_data_frame read_not_found ''T'' example_manager) =
     Inr (PDataFrame \<lparr>df_schema = [(''id'', ''Int64''), (''v'', ''Utf8'')], df_rows = []\<rparr>) \<and>
   fst (BaseTableManager_get_lazy_frame read_not_found ''T'' example_manager) =
     Inr (PObj ()) \<and>
   fst (BaseTableManager_get_data_frame read_not_found ''nope'' example_manager) =
     Inl (ValueError ''Table 'nope' does not exist or has no data: no log files'') \<and>
   scan_not_found (calls example_manager)
     (ScanDelta (PathJoin (base_path example_manager) ''T'') (storage_options example_manager)) =
     Raises (TableNotFoundError ''no log files'') \<and>
   fst (BaseTableManager_get_lazy_frame scan_not_found ''T'' example_manager) =
     Inr (PLazyFrame \<lparr>df_schema = [(''id'', ''Int64''), (''v'', ''Utf8'')], df_rows = []\<rparr>) \<and>
   fst (LakeManager_get_lazy_frame scan_not_found ''T'' example_manager) =
     Inr (PLazyFrame \<lparr>df_schema = [(''id'', ''Int64''), (''v'', ''Utf8'')], df_rows = []\<rparr>) \<and>
   fst (BaseTableManager_get_lazy_frame scan_not_found ''nope'' example_manager) =
     Inl (ValueError ''Table 'nope' does not exist or has no data: no log files'')"
proof -
  have r: "read_not_found (calls example_manager)
     (ReadDelta (PathJoin (base_path example_manager) tn) (storage_options example_manager)) =
     Raises (TableNotFoundError ''no log files'')" for tn
    by (simp add: read_not_found_def)
  have rs: "read_not_found (calls example_manager)
     (ScanDelta (PathJoin (base_path example_manager) ''T'') (storage_options example_manager)) =
     Returns (PObj ())"
    by (simp add: read_not_found_def)
  have s: "scan_not_found (calls example_manager)
     (ScanDelta (PathJoin (base_path example_manager) tn) (storage_options example_manager)) =
     Raises (TableNotFoundError ''no log files'')" for tn
    by (simp add: scan_not_found_def)
  have plan: "fst (BaseTableManager_get_lazy_frame read_not_found ''T'' example_manager) =
     Inr (PObj ())"
    by (simp add: BaseTableManager_get_lazy_frame_def call_engine_def read_not_found_def)
  have valid: "validate_table_name ''T'' = []"
    by (simp add: validate_table_name_def strip_def isspace_def py_whitespace_def)
  have look: "map_of (tables example_manager) ''T'' = Some example_table"
    by (simp add: example_manager_def)
  have absent: "map_of (tables example_manager) ''nope'' = None"
    by (simp add: example_manager_def)
  have sch: "table_schema example_table = [(''id'', ''Int64''), (''v'', ''Utf8'')]"
    by (simp add: example_table_def example_schema_def)
  note t = read_of_unwritten_table[where eng = read_not_found and st = example_manager and
      tn = "''T''"]
  note n = read_of_unwritten_table[where eng = read_not_found and st = example_manager and
      tn = "''nope''"]
  note t' = read_of_unwritten_table[where eng = scan_not_found and st = example_manager and
      tn = "''T''"]
  note n' = read_of_unwritten_table[where eng = scan_not_found and st = example_manager and
      tn = "''nope''"]
  from t[THEN conjunct1, rule_format, OF r] valid look
  have e1: "fst (BaseTableManager_get_data_frame read_not_found ''T'' example_manager) =
      Inr (PDataFrame \<lparr>df_schema = [(''id'', ''Int64''), (''v'', ''Utf8'')], df_rows = []\<rparr>)"
    and e2: "fst (LakeManager_get_data_frame read_not_found ''T'' example_manager) =
      Inr (PDataFrame \<lparr>df_schema = [(''id'', ''Int64''), (''v'', ''Utf8'')], df_rows = []\<rparr>)"
    by (simp_all add: sch)
  from n[THEN conjunct1, rule_format, OF r] absent
  have e3: "fst (BaseTableManager_get_data_frame read_not_found ''nope'' example_manager) =
      Inl (ValueError ''Table 'nope' does not exist or has no data: no log files'')"
    by simp
  from t'[THEN conjunct2, rule_format, OF s] valid look
  have l1: "fst (BaseTableManager_get_lazy_frame scan_not_found ''T'' example_manager) =
      Inr (PLazyFrame \<lparr>df_schema = [(''id'', ''Int64''), (''v'', ''Utf8'')], df_rows = []\<rparr>)"
    and l2: "fst (LakeManager_get_lazy_frame scan_not_found ''T'' example_manager) =
      Inr (PLazyFrame \<lparr>df_schema = [(''id'', ''Int64''), (''v'', ''Utf8'')], df_rows = []\<rparr>)"
    by (simp_all add: sch)
  from n'[THEN conjunct2, rule_format, OF s] absent
  have l3: "fst (BaseTableManager_get_lazy_frame scan_not_found ''nope'' example_manager) =
      Inl (ValueError ''Table 'nope' does not exist or has no data: no log files'')"
    by simp
  from r[of "''T''"] rs s[of "''T''"] plan e1 e2 e3 l1 l2 l3 show ?thesis by simp
qed

subsection \<open>Schema validation before every write\<close>

text \<open>
  Claim C4. For a table of the catalog and a batch whose column set differs from the
  declared schema, or in which some declared column has another type, append, merge and
  overwrite each fail with the schema-mismatch error and leave the state as it was: the log
  of engine calls does not grow, so no call reaches the engine.
\<close>

theorem schema_mismatch_rejected:
  assumes declared: "map_of (tables st) tn = Some bt"
      and differ: "set (map fst (df_schema df)) \<noteq> set (map fst (table_schema bt)) \<or>
                   (\<exists>c \<in> set (map fst (table_schema bt)).
                      map_of (df_schema df) c \<noteq> map_of (table_schema bt) c)"
  shows "BaseTableManager_append eng tn df dwo st =
           (Inl (ValueError ''DataFrame does not match table schema''), st) \<and>
         BaseTableManager_merge eng tn df mc dwo st =
           (Inl (ValueError ''DataFrame does not match table schema''), st) \<and>
         BaseTableManager_overwrite eng tn df dwo st =
           (Inl (ValueError ''DataFrame does not match table schema''), st)"
proof -
  from differ have "\<not> validate_schema bt df"
    by (auto simp: validate_schema_def list_all_iff)
  with declared show ?thesis
    by (simp add: BaseTableManager_append_def BaseTableManager_merge_def
        BaseTableManager_overwrite_def)
qed

theorem schema_mismatch_rejected_witness:
  "map_of (tables example_manager) ''T'' = Some example_table \<and>
   map_of (df_schema mismatched_batch) ''id'' \<noteq> map_of (table_schema example_table) ''id'' \<and>
   BaseTableManager_append accepting ''T'' mismatched_batch None example_manager =
     (Inl (ValueError ''DataFrame does not match table schema''), example_manager) \<and>
   BaseTableManager_merge accepting ''T'' mismatched_batch ''upsert'' None example_manager =
     (Inl (ValueError ''DataFrame does not match table schema''), example_manager) \<and>
   BaseTableManager_overwrite accepting ''T'' mismatched_batch None example_manager =
     (Inl (ValueError ''DataFrame does not match table schema''), example_manager) \<and>
   calls example_manager = []"
proof -
  have declared: "map_of (tables example_manager) ''T'' = Some example_table"
    by (simp add: example_manager_def)
  have ty: "map_of (df_schema mismatched_batch) ''id'' \<noteq>
            map_of (table_schema example_table) ''id''"
    by (simp add: mismatched_batch_def example_table_def example_schema_def)
  have differ: "set (map fst (df_schema mismatched_batch)) \<noteq>
                  set (map fst (table_schema example_table)) \<or>
                (\<exists>c \<in> set (map fst (table_schema example_table)).
                   map_of (df_schema mismatched_batch) c \<noteq> map_of (table_schema example_table) c)"
    by (simp add: mismatched_batch_def example_table_def example_schema_def)
  from schema_mismatch_rejected[OF declared differ, of accepting None "''upsert''"] declared ty
  show ?thesis by (simp add: example_manager_def)
qed

subsection \<open>Merge\<close>

lemma execute_if_False: "execute_if eng False m cl r = r"
  by (cases r) (simp add: execute_if_def split: option.splits)

lemma execute_if_True:
  "execute_if eng True m cl (None, st) =
     (case eng (calls st) (MergerExecute m cl) of Raises e \<Rightarrow> Some e | Returns v \<Rightarrow> None,
      st\<lparr>calls := calls st @ [MergerExecute m cl]\<rparr>)"
  by (simp add: execute_if_def call_engine_def split: reply.splits)

lemma execute_if_frame:
  "base_path (snd (execute_if eng b m cl r)) = base_path (snd r) \<and>
   storage_options (snd (execute_if eng b m cl r)) = storage_options (snd r)"
  by (cases r) (simp add: execute_if_def call_engine_def split: option.splits reply.splits)

lemma merge_try_frame:
  "base_path (snd (merge_try eng tn df mc pk st)) = base_path st \<and>
   storage_options (snd (merge_try eng tn df mc pk st)) = storage_options st"
  by (simp add: merge_try_def call_engine_def execute_if_frame Let_def split: reply.splits)

lemma merge_try_open_raises:
  assumes "eng (calls st)
             (WriteDelta (PathJoin (base_path st) tn) ''merge'' df None (storage_options st)
                (Some (delta_merge_options pk))) = Raises e"
  shows "merge_try eng tn df mc pk st =
           (Some e, st\<lparr>calls := calls st @
              [WriteDelta (PathJoin (base_path st) tn) ''merge'' df None (storage_options st)
                 (Some (delta_merge_options pk))]\<rparr>)"
  using assms by (simp add: merge_try_def call_engine_def)

lemma calls_call_unit: "calls (snd (call_unit eng c st)) = calls st @ [c]"
  by (simp add: call_unit_def call_engine_def split: reply.splits)

lemma fst_call_unit:
  "fst (call_unit eng c st) =
     (case eng (calls st) c of Raises e \<Rightarrow> Inl (EngineRaised e) | Returns v \<Rightarrow> Inr ())"
  by (simp add: call_unit_def call_engine_def split: reply.splits)

text \<open>
  Claim C1. For a table of the catalog and a batch that conforms to its schema, when the
  merge primitive reports that the table is not found (the \<^verbatim>\<open>try\<close> block of
  \<^verbatim>\<open>merge\<close> ends with \<^verbatim>\<open>TableNotFoundError\<close>): with the condition \<^verbatim>\<open>insert\<close> or
  \<^verbatim>\<open>upsert\<close> the next and last engine call is a plain append of the whole source batch,
  and its outcome is the outcome of the merge; with \<^verbatim>\<open>update\<close>, \<^verbatim>\<open>delete\<close> or
  \<^verbatim>\<open>upsert_delete\<close> the merge raises the \<^verbatim>\<open>ValueError\<close> whose text says that no log
  files or data were found and names the merge condition, and no further call reaches the
  engine.
\<close>

theorem merge_table_not_found:
  assumes declared: "map_of (tables st) tn = Some bt"
      and conforms: "validate_schema bt df"
      and not_found: "merge_try eng tn df mc (primary_keys bt) st = (Some (TableNotFoundError m), st')"
  shows "(mc = ''insert'' \<or> mc = ''upsert'' \<longrightarrow>
            calls (snd (BaseTableManager_merge eng tn df mc dwo st)) =
              calls st' @
              [WriteDelta (PathJoin (base_path st) tn) ''append'' df
                 (Some (with_description dwo (primary_keys bt))) (storage_options st) None] \<and>
            fst (BaseTableManager_merge eng tn df mc dwo st) =
              (case eng (calls st')
                      (WriteDelta (PathJoin (base_path st) tn) ''append'' df
                         (Some (with_description dwo (primary_keys bt))) (storage_options st) None) of
                 Raises e \<Rightarrow> Inl (EngineRaised e)
               | Returns v \<Rightarrow> Inr ())) \<and>
         (mc = ''update'' \<or> mc = ''delete'' \<or> mc = ''upsert_delete'' \<longrightarrow>
            BaseTableManager_merge eng tn df mc dwo st =
              (Inl (ValueError
                 (''No log files found or data found.Please check if table data exists '' @
                  ''or if the merge condition ('' @ mc @ '') is correct.'')), st'))"
proof -
  from merge_try_frame[of eng tn df mc "primary_keys bt" st] not_found
  have frame: "base_path st' = base_path st" "storage_options st' = storage_options st"
    by simp_all
  have fallback: "BaseTableManager_merge eng tn df mc dwo st =
      call_unit eng
        (WriteDelta (PathJoin (base_path st) tn) ''append'' df
           (Some (with_description dwo (primary_keys bt))) (storage_options st) None) st'"
    if "mc = ''insert'' \<or> mc = ''upsert''"
    using that declared conforms not_found frame
    by (auto simp: BaseTableManager_merge_def)
  have refuse: "BaseTableManager_merge eng tn df mc dwo st =
      (Inl (ValueError
         (''No log files found or data found.Please check if table data exists '' @
          ''or if the merge condition ('' @ mc @ '') is correct.'')), st')"
    if "mc = ''update'' \<or> mc = ''delete'' \<or> mc = ''upsert_delete''"
    using that declared conforms not_found
    by (auto simp: BaseTableManager_merge_def no_data_message_def)
  from fallback refuse show ?thesis
    by (simp add: calls_call_unit fst_call_unit)
qed

theorem merge_table_not_found_witness:
  "map_of (tables example_manager) ''T'' = Some example_table \<and>
   validate_schema example_table example_batch \<and>
   merge_try merge_not_found ''T'' example_batch ''insert'' (primary_keys example_table)
       example_manager =
     (Some (TableNotFoundError ''no log files''),
      example_manager\<lparr>calls :=
        [WriteDelta (PathJoin ''data'' ''T'') ''merge'' example_batch None None
           (Some (delta_merge_options ''id''))]\<rparr>) \<and>
   calls (snd (BaseTableManager_merge merge_not_found ''T'' example_batch ''insert'' None
       example_manager)) =
     [WriteDelta (PathJoin ''data'' ''T'') ''merge'' example_batch None None
        (Some (delta_merge_options ''id'')),
      WriteDelta (PathJoin ''data'' ''T'') ''append'' example_batch
        (Some [(''description'', PStr ''id'')]) None None] \<and>
   fst (BaseTableManager_merge merge_not_found ''T'' example_batch ''insert'' None
       example_manager) = Inr () \<and>
   BaseTableManager_merge merge_not_found ''T'' example_batch ''update'' None example_manager =
     (Inl (ValueError
        (''No log files found or data found.Please check if table data exists '' @
         ''or if the merge condition (update) is correct.'')),
      example_manager\<lparr>calls :=
        [WriteDelta (PathJoin ''data'' ''T'') ''merge'' example_batch None None
           (Some (delta_merge_options ''id''))]\<rparr>) \<and>
   fst (BaseTableManager_merge merge_not_found ''T'' example_batch ''upsert_delete'' None
       example_manager) =
     Inl (ValueError
        (''No log files found or data found.Please check if table data exists '' @
         ''or if the merge condition (upsert_delete) is correct.''))"
proof -
  let ?st' = "example_manager\<lparr>calls :=
        [WriteDelta (PathJoin ''data'' ''T'') ''merge'' example_batch None None
           (Some (delta_merge_options ''id''))]\<rparr>"
  have declared: "map_of (tables example_manager) ''T'' = Some example_table"
    by (simp add: example_manager_def)
  have conforms: "validate_schema example_table example_batch"
    by (simp add: validate_schema_def example_table_def example_batch_def example_schema_def
        insert_commute)
  have opened: "merge_not_found (calls example_manager)
      (WriteDelta (PathJoin (base_path example_manager) ''T'') ''merge'' example_batch None
         (storage_options example_manager) (Some (delta_merge_options ''id''))) =
      Raises (TableNotFoundError ''no log files'')"
    by (simp add: merge_not_found_def)
  have nf: "merge_try merge_not_found ''T'' example_batch mc (primary_keys example_table)
              example_manager = (Some (TableNotFoundError ''no log files''), ?st')" for mc
    using merge_try_open_raises[where eng = merge_not_found and st = example_manager and
        tn = "''T''" and df = example_batch and pk = "''id''" and mc = mc, OF opened]
    by (simp add: example_table_def example_manager_def)
  have app: "merge_not_found (calls ?st')
      (WriteDelta (PathJoin (base_path example_manager) ''T'') ''append'' example_batch
         (Some (with_description None (primary_keys example_table)))
         (storage_options example_manager) None) = Returns PNone"
    by (simp add: merge_not_found_def)
  from merge_table_not_found[OF declared conforms nf, of "''insert''" None]
       merge_table_not_found[OF declared conforms nf, of "''update''" None]
       merge_table_not_found[OF declared conforms nf, of "''upsert_delete''" None]
       declared conforms nf[of "''insert''"] app
  show ?thesis
    by (simp add: example_manager_def example_table_def with_description_def)
qed

lemma merger_executions_append:
  "merger_executions (xs @ ys) = merger_executions xs @ merger_executions ys"
  by (induction xs rule: merger_executions.induct) simp_all

lemma merge_try_opened:
  assumes "eng (calls st)
             (WriteDelta (PathJoin (base_path st) tn) ''merge'' df None (storage_options st)
                (Some (delta_merge_options pk))) = Returns merger"
  shows "merge_try eng tn df mc pk st =
           (let r = (None, st\<lparr>calls := calls st @
                       [WriteDelta (PathJoin (base_path st) tn) ''merge'' df None
                          (storage_options st) (Some (delta_merge_options pk))]\<rparr>);
                r = execute_if eng (mc = ''update'') merger [WhenMatchedUpdateAll] r;
                r = execute_if eng (mc = ''insert'') merger [WhenNotMatchedInsertAll] r;
                r = execute_if eng (mc = ''delete'') merger [WhenMatchedDelete] r;
                r = execute_if eng (mc = ''upsert'') merger
                      [WhenMatchedUpdateAll, WhenNotMatchedInsertAll] r;
                r = execute_if eng (mc = ''upsert_delete'') merger
                      [WhenMatchedUpdateAll, WhenNotMatchedInsertAll,
                       WhenNotMatchedBySourceDelete] r
            in r)"
  using assms by (simp add: merge_try_def call_engine_def)

text \<open>After the \<^verbatim>\<open>try\<close> block, \<^verbatim>\<open>merge\<close> makes at most one more call, an append,
  which is no execution of a merge.\<close>

lemma merger_executions_merge:
  assumes declared: "map_of (tables st) tn = Some bt"
      and conforms: "validate_schema bt df"
  shows "merger_executions (calls (snd (BaseTableManager_merge eng tn df mc dwo st))) =
         merger_executions (calls (snd (merge_try eng tn df mc (primary_keys bt) st)))"
proof (cases "merge_try eng tn df mc (primary_keys bt) st")
  case (Pair r st')
  with declared conforms show ?thesis
    by (cases r)
       (simp_all add: BaseTableManager_merge_def calls_call_unit merger_executions_append)
qed

lemma merge_try_single_execution:
  assumes opened: "eng (calls st)
             (WriteDelta (PathJoin (base_path st) tn) ''merge'' df None (storage_options st)
                (Some (delta_merge_options pk))) = Returns merger"
  shows "merger_executions (calls (snd (merge_try eng tn df ''update'' pk st))) =
           merger_executions (calls st) @ [(merger, [WhenMatchedUpdateAll])]"
    and "merger_executions (calls (snd (merge_try eng tn df ''insert'' pk st))) =
           merger_executions (calls st) @ [(merger, [WhenNotMatchedInsertAll])]"
    and "merger_executions (calls (snd (merge_try eng tn df ''delete'' pk st))) =
           merger_executions (calls st) @ [(merger, [WhenMatchedDelete])]"
    and "merger_executions (calls (snd (merge_try eng tn df ''upsert'' pk st))) =
           merger_executions (calls st) @
           [(merger, [WhenMatchedUpdateAll, WhenNotMatchedInsertAll])]"
    and "merger_executions (calls (snd (merge_try eng tn df ''upsert_delete'' pk st))) =
           merger_executions (calls st) @
           [(merger, [WhenMatchedUpdateAll, WhenNotMatchedInsertAll,
                      WhenNotMatchedBySourceDelete])]"
  by (simp_all add: merge_try_opened[where eng = eng and st = st and tn = tn and df = df and
        pk = pk and merger = merger, OF opened] execute_if_False execute_if_True
      merger_executions_append split: reply.splits)

text \<open>
  Claim C2. For a table of the catalog, a batch that conforms to its schema and a merge
  call on which the engine hands out a merger, each valid merge condition executes exactly
  one merge on the engine's merge primitive, with exactly these clauses: \<^verbatim>\<open>update\<close>:
  update-all when matched; \<^verbatim>\<open>insert\<close>: insert-all when not matched; \<^verbatim>\<open>delete\<close>:
  delete when matched; \<^verbatim>\<open>upsert\<close>: update-all when matched, insert-all when not matched;
  \<^verbatim>\<open>upsert_delete\<close>: update-all when matched, insert-all when not matched, delete when
  not matched by source (rows of the target that the source lacks).
\<close>

theorem merge_condition_actions:
  assumes declared: "map_of (tables st) tn = Some bt"
      and conforms: "validate_schema bt df"
      and opened: "eng (calls st)
             (WriteDelta (PathJoin (base_path st) tn) ''merge'' df None (storage_options st)
                (Some (delta_merge_options (primary_keys bt)))) = Returns merger"
  shows "merger_executions (calls (snd (BaseTableManager_merge eng tn df ''update'' dwo st))) =
           merger_executions (calls st) @ [(merger, [WhenMatchedUpdateAll])] \<and>
         merger_executions (calls (snd (BaseTableManager_merge eng tn df ''insert'' dwo st))) =
           merger_executions (calls st) @ [(merger, [WhenNotMatchedInsertAll])] \<and>
         merger_executions (calls (snd (BaseTableManager_merge eng tn df ''delete'' dwo st))) =
           merger_executions (calls st) @ [(merger, [WhenMatchedDelete])] \<and>
         merger_executions (calls (snd (BaseTableManager_merge eng tn df ''upsert'' dwo st))) =
           merger_executions (calls st) @
           [(merger, [WhenMatchedUpdateAll, WhenNotMatchedInsertAll])] \<and>
         merger_executions
           (calls (snd (BaseTableManager_merge eng tn df ''upsert_delete'' dwo st))) =
           merger_executions (calls st) @
           [(merger, [WhenMatchedUpdateAll, WhenNotMatchedInsertAll,
                      WhenNotMatchedBySourceDelete])]"
  by (simp add: merger_executions_merge[OF declared conforms]
      merge_try_single_execution[where eng = eng and st = st and tn = tn and df = df and
        pk = "primary_keys bt" and merger = merger, OF opened])

lemma example_conforms: "validate_schema example_table example_batch"
  by (simp add: validate_schema_def example_table_def example_batch_def example_schema_def
      insert_commute)

theorem merge_condition_actions_witness:
  "map_of (tables example_manager) ''T'' = Some example_table \<and>
   validate_schema example_table example_batch \<and>
   accepting (calls example_manager)
     (WriteDelta (PathJoin (base_path example_manager) ''T'') ''merge'' example_batch None
        (storage_options example_manager)
        (Some (delta_merge_options (primary_keys example_table)))) = Returns (PObj ()) \<and>
   merger_executions
     (calls (snd (BaseTableManager_merge accepting ''T'' example_batch ''update'' None
        example_manager))) = [(PObj (), [WhenMatchedUpdateAll])] \<and>
   merger_executions
     (calls (snd (BaseTableManager_merge accepting ''T'' example_batch ''insert'' None
        example_manager))) = [(PObj (), [WhenNotMatchedInsertAll])] \<and>
   merger_executions
     (calls (snd (BaseTableManager_merge accepting ''T'' example_batch ''delete'' None
        example_manager))) = [(PObj (), [WhenMatchedDelete])] \<and>
   merger_executions
     (calls (snd (BaseTableManager_merge accepting ''T'' example_batch ''upsert'' None
        example_manager))) = [(PObj (), [WhenMatchedUpdateAll, WhenNotMatchedInsertAll])] \<and>
   merger_executions
     (calls (snd (BaseTableManager_merge accepting ''T'' example_batch ''upsert_delete'' None
        example_manager))) =
     [(PObj (), [WhenMatchedUpdateAll, WhenNotMatchedInsertAll, WhenNotMatchedBySourceDelete])]"
proof -
  have declared: "map_of (tables example_manager) ''T'' = Some example_table"
    by (simp add: example_manager_def)
  have opened: "accepting (calls example_manager)
     (WriteDelta (PathJoin (base_path example_manager) ''T'') ''merge'' example_batch None
        (storage_options example_manager)
        (Some (delta_merge_options (primary_keys example_table)))) = Returns (PObj ())"
    by (simp add: accepting_def)
  have none: "merger_executions (calls example_manager) = []"
    by (simp add: example_manager_def)
  from merge_condition_actions[where eng = accepting and st = example_manager and
      tn = "''T''" and df = example_batch and bt = example_table and merger = "PObj ()" and
      dwo = None, OF declared example_conforms opened]
    declared example_conforms opened
  show ?thesis by (simp add: none)
qed

lemma description_with_description:
  "map_of (with_description dwo pk) ''description'' = Some (PStr pk)"
  by (simp add: with_description_def update_conv')

text \<open>
  Claim C5, as amended. For a table of the catalog and a batch that conforms to its schema,
  append and overwrite make one engine call, a \<^verbatim>\<open>write_delta\<close> in their mode whose write
  options carry the table's composite primary-key string under \<^verbatim>\<open>description\<close>; so does
  the append that merge falls back to (condition \<^verbatim>\<open>insert\<close> or \<^verbatim>\<open>upsert\<close>, table not
  found). The merge call itself is given the merge options only (predicate and aliases) and
  no write options.
\<close>

theorem description_attached:
  assumes declared: "map_of (tables st) tn = Some bt"
      and conforms: "validate_schema bt df"
  shows "calls (snd (BaseTableManager_append eng tn df dwo st)) =
           calls st @
           [WriteDelta (PathJoin (base_path st) tn) ''append'' df
              (Some (with_description dwo (primary_keys bt))) (storage_options st) None] \<and>
         calls (snd (BaseTableManager_overwrite eng tn df dwo st)) =
           calls st @
           [WriteDelta (PathJoin (base_path st) tn) ''overwrite'' df
              (Some (with_description dwo (primary_keys bt))) (storage_options st) None] \<and>
         (\<forall>mc m st'.
            (mc = ''insert'' \<or> mc = ''upsert'') \<and>
            merge_try eng tn df mc (primary_keys bt) st = (Some (TableNotFoundError m), st') \<longrightarrow>
            calls (snd (BaseTableManager_merge eng tn df mc dwo st)) =
              calls st' @
              [WriteDelta (PathJoin (base_path st) tn) ''append'' df
                 (Some (with_description dwo (primary_keys bt))) (storage_options st) None]) \<and>
         (\<forall>mode.
            description_of
              (WriteDelta (PathJoin (base_path st) tn) mode df
                 (Some (with_description dwo (primary_keys bt))) (storage_options st) None) =
            Some (PStr (primary_keys bt)))"
proof -
  have a: "calls (snd (BaseTableManager_append eng tn df dwo st)) =
           calls st @
           [WriteDelta (PathJoin (base_path st) tn) ''append'' df
              (Some (with_description dwo (primary_keys bt))) (storage_options st) None]"
    using declared conforms by (simp add: BaseTableManager_append_def calls_call_unit)
  have b: "calls (snd (BaseTableManager_overwrite eng tn df dwo st)) =
           calls st @
           [WriteDelta (PathJoin (base_path st) tn) ''overwrite'' df
              (Some (with_description dwo (primary_keys bt))) (storage_options st) None]"
    using declared conforms by (simp add: BaseTableManager_overwrite_def calls_call_unit)
  have c: "calls (snd (BaseTableManager_merge eng tn df mc dwo st)) =
              calls st' @
              [WriteDelta (PathJoin (base_path st) tn) ''append'' df
                 (Some (with_description dwo (primary_keys bt))) (storage_options st) None]"
    if "mc = ''insert'' \<or> mc = ''upsert''"
      and nf: "merge_try eng tn df mc (primary_keys bt) st = (Some (TableNotFoundError m), st')"
    for mc m st'
  proof -
    from merge_try_frame[of eng tn df mc "primary_keys bt" st] nf
    have "base_path st' = base_path st" "storage_options st' = storage_options st"
      by simp_all
    with that declared conforms show ?thesis
      by (auto simp: BaseTableManager_merge_def calls_call_unit)
  qed
  have d: "description_of
              (WriteDelta (PathJoin (base_path st) tn) mode df
                 (Some (with_description dwo (primary_keys bt))) (storage_options st) None) =
            Some (PStr (primary_keys bt))" for mode
    by (simp add: description_with_description)
  from a b c d show ?thesis by blast
qed

theorem description_attached_witness:
  "map_of (tables example_manager) ''T'' = Some example_table \<and>
   validate_schema example_table example_batch \<and>
   calls (snd (BaseTableManager_append accepting ''T'' example_batch
      (Some [(''description'', PStr ''mine''), (''name'', PStr ''n'')]) example_manager)) =
     [WriteDelta (PathJoin ''data'' ''T'') ''append'' example_batch
        (Some [(''description'', PStr ''id''), (''name'', PStr ''n'')]) None None] \<and>
   calls (snd (BaseTableManager_overwrite accepting ''T'' example_batch None example_manager)) =
     [WriteDelta (PathJoin ''data'' ''T'') ''overwrite'' example_batch
        (Some [(''description'', PStr ''id'')]) None None] \<and>
   description_of
     (WriteDelta (PathJoin ''data'' ''T'') ''overwrite'' example_batch
        (Some [(''description'', PStr ''id'')]) None None) = Some (PStr ''id'')"
proof -
  have declared: "map_of (tables example_manager) ''T'' = Some example_table"
    by (simp add: example_manager_def)
  from description_attached[OF declared example_conforms, of accepting
         "Some [(''description'', PStr ''mine''), (''name'', PStr ''n'')]"]
       description_attached[OF declared example_conforms, of accepting None]
       declared example_conforms
  show ?thesis
    by (simp add: example_manager_def example_table_def with_description_def)
qed

text \<open>
  The claim as first stated (the key string attached on the call delegated to the engine,
  for merge as for append and overwrite) fails on a merge that the engine accepts: neither
  of its two calls carries a \<^verbatim>\<open>description\<close>.
\<close>

theorem merge_without_description_counterexample:
  "map_of (tables example_manager) ''T'' = Some example_table \<and>
   validate_schema example_table example_batch \<and>
   calls (snd (BaseTableManager_merge accepting ''T'' example_batch ''upsert''
      None example_manager)) =
     [WriteDelta (PathJoin ''data'' ''T'') ''merge'' example_batch None None
        (Some [(''predicate'', PStr ''s.id = t.id''), (''source_alias'', PStr ''s''),
               (''target_alias'', PStr ''t'')]),
      MergerExecute (PObj ()) [WhenMatchedUpdateAll, WhenNotMatchedInsertAll]] \<and>
   map description_of
     (calls (snd (BaseTableManager_merge accepting ''T'' example_batch ''upsert''
        None example_manager))) = [None, None]"
proof -
  have declared: "map_of (tables example_manager) ''T'' = Some example_table"
    by (simp add: example_manager_def)
  have run: "calls (snd (BaseTableManager_merge accepting ''T'' example_batch ''upsert''
      None example_manager)) =
     [WriteDelta (PathJoin ''data'' ''T'') ''merge'' example_batch None None
        (Some [(''predicate'', PStr ''s.id = t.id''), (''source_alias'', PStr ''s''),
               (''target_alias'', PStr ''t'')]),
      MergerExecute (PObj ()) [WhenMatchedUpdateAll, WhenNotMatchedInsertAll]]"
    using declared example_conforms
    by (simp add: BaseTableManager_merge_def merge_try_def call_engine_def execute_if_def
        accepting_def delta_merge_options_def merge_predicate_def example_manager_def
        example_table_def Let_def)
  from declared example_conforms run show ?thesis by simp
qed

subsection \<open>The join predicate of merge\<close>

lemma split_on_no_sep: "d \<notin> set s \<Longrightarrow> split_on d s = [s]"
  by (induction s) auto

lemma split_on_append_sep:
  "d \<notin> set x \<Longrightarrow> split_on d (x @ d # rest) = x # split_on d rest"
  by (induction x) auto

text \<open>Splitting undoes joining when no piece holds the separator.\<close>

lemma split_on_join_str:
  "cs \<noteq> [] \<Longrightarrow> \<forall>c \<in> set cs. d \<notin> set c \<Longrightarrow> split_on d (join_str [d] cs) = cs"
proof (induction "[d]" cs rule: join_str.induct)
  case 1
  then show ?case by simp
next
  case (2 x)
  then show ?case by (simp add: split_on_no_sep)
next
  case (3 x y ys)
  then show ?case by (simp add: split_on_append_sep)
qed

lemma sep_in_join_str: "2 \<le> length cs \<Longrightarrow> d \<in> set (join_str [d] cs)"
  by (induction "[d]" cs rule: join_str.induct) auto

lemma map_strip_id: "\<forall>c \<in> set cs. strip c = c \<Longrightarrow> map strip cs = cs"
  by (induction cs) auto

text \<open>The predicate from a joined key string: one column is used as it is, several are
  split and each stripped.\<close>

lemma merge_predicate_join:
  assumes "cs \<noteq> []" and "\<forall>c \<in> set cs. CHR '','' \<notin> set c"
  shows "merge_predicate (join_str '','' cs) =
         join_str '' AND ''
           (map (\<lambda>col. ''s.'' @ col @ '' = t.'' @ col)
              (if length cs = 1 then cs else map strip cs))"
proof (cases "2 \<le> length cs")
  case True
  have "CHR '','' \<in> set (join_str '','' cs)"
    using sep_in_join_str[OF True, of "CHR '',''"] by simp
  moreover have "split_on CHR '','' (join_str '','' cs) = cs"
    using split_on_join_str[of cs "CHR '',''"] assms by simp
  ultimately show ?thesis using True by (simp add: merge_predicate_def)
next
  case False
  with assms(1) obtain c where "cs = [c]"
    by (cases cs) (auto simp: Suc_le_eq)
  with assms(2) show ?thesis by (simp add: merge_predicate_def)
qed

lemma calls_execute_if:
  "\<exists>more. calls (snd (execute_if eng b m cl r)) = calls (snd r) @ more"
  by (cases r) (simp add: execute_if_def call_engine_def split: option.splits reply.splits)

lemma calls_merge_try:
  "\<exists>rest. calls (snd (merge_try eng tn df mc pk st)) =
     calls st @
     WriteDelta (PathJoin (base_path st) tn) ''merge'' df None (storage_options st)
       (Some (delta_merge_options pk)) # rest"
proof (cases "eng (calls st)
    (WriteDelta (PathJoin (base_path st) tn) ''merge'' df None (storage_options st)
       (Some (delta_merge_options pk)))")
  case (Raises e)
  then show ?thesis by (simp add: merge_try_def call_engine_def)
next
  case (Returns merger)
  let ?c = "WriteDelta (PathJoin (base_path st) tn) ''merge'' df None (storage_options st)
       (Some (delta_merge_options pk))"
  define r0 where "r0 = (None :: engine_exn option, st\<lparr>calls := calls st @ [?c]\<rparr>)"
  define r1 where "r1 = execute_if eng (mc = ''update'') merger [WhenMatchedUpdateAll] r0"
  define r2 where "r2 = execute_if eng (mc = ''insert'') merger [WhenNotMatchedInsertAll] r1"
  define r3 where "r3 = execute_if eng (mc = ''delete'') merger [WhenMatchedDelete] r2"
  define r4 where "r4 = execute_if eng (mc = ''upsert'') merger
                     [WhenMatchedUpdateAll, WhenNotMatchedInsertAll] r3"
  define r5 where "r5 = execute_if eng (mc = ''upsert_delete'') merger
                     [WhenMatchedUpdateAll, WhenNotMatchedInsertAll,
                      WhenNotMatchedBySourceDelete] r4"
  have run: "merge_try eng tn df mc pk st = r5"
    using Returns by (simp add: merge_try_def call_engine_def r0_def r1_def r2_def r3_def
        r4_def r5_def)
  obtain m1 where "calls (snd r1) = calls (snd r0) @ m1"
    unfolding r1_def using calls_execute_if by blast
  moreover obtain m2 where "calls (snd r2) = calls (snd r1) @ m2"
    unfolding r2_def using calls_execute_if by blast
  moreover obtain m3 where "calls (snd r3) = calls (snd r2) @ m3"
    unfolding r3_def using calls_execute_if by blast
  moreover obtain m4 where "calls (snd r4) = calls (snd r3) @ m4"
    unfolding r4_def using calls_execute_if by blast
  moreover obtain m5 where "calls (snd r5) = calls (snd r4) @ m5"
    unfolding r5_def using calls_execute_if by blast
  ultimately have "calls (snd r5) = calls st @ ?c # (m1 @ m2 @ m3 @ m4 @ m5)"
    by (simp add: r0_def)
  with run show ?thesis by auto
qed

lemma calls_merge:
  assumes declared: "map_of (tables st) tn = Some bt"
      and conforms: "validate_schema bt df"
  shows "\<exists>rest. calls (snd (BaseTableManager_merge eng tn df mc dwo st)) =
     calls st @
     WriteDelta (PathJoin (base_path st) tn) ''merge'' df None (storage_options st)
       (Some (delta_merge_options (primary_keys bt))) # rest"
proof (cases "merge_try eng tn df mc (primary_keys bt) st")
  case (Pair r st')
  from calls_merge_try[of eng tn df mc "primary_keys bt" st] Pair
  obtain rest where rest: "calls st' = calls st @
     WriteDelta (PathJoin (base_path st) tn) ''merge'' df None (storage_options st)
       (Some (delta_merge_options (primary_keys bt))) # rest"
    by auto
  from declared conforms Pair rest show ?thesis
    by (cases r) (simp_all add: BaseTableManager_merge_def calls_call_unit)
qed

text \<open>
  Claim C3, as amended. For every table definition created from a non-empty declaration of
  key columns whose names hold no comma, the definition stores the names joined with
  commas, and the merge options are the predicate built from the key columns in declared
  order, the source alias \<^verbatim>\<open>s\<close> and the target alias \<^verbatim>\<open>t\<close>. For one key column the
  predicate is \<^verbatim>\<open>s.col = t.col\<close> with the name as declared. For several it is these
  equalities joined with \<^verbatim>\<open>AND\<close>, over the declared names with the whitespace at their
  ends stripped; so for names without such whitespace it is the equalities of the declared
  names. Every merge of a conforming batch into such a table first calls the engine with
  exactly these options.
\<close>

theorem merge_predicate_of_declared_keys:
  assumes nonempty: "pk_columns pks \<noteq> []"
      and no_comma: "\<forall>c \<in> set (pk_columns pks). CHR '','' \<notin> set c"
  shows "(\<exists>bt. map_of (tables (snd (BaseTableManager_create_table tn sch pks st0))) tn = Some bt \<and>
               primary_keys bt = join_str '','' (pk_columns pks)) \<and>
         merge_predicate (join_str '','' (pk_columns pks)) =
           join_str '' AND ''
             (map (\<lambda>col. ''s.'' @ col @ '' = t.'' @ col)
                (if length (pk_columns pks) = 1 then pk_columns pks
                 else map strip (pk_columns pks))) \<and>
         (length (pk_columns pks) = 1 \<or> (\<forall>c \<in> set (pk_columns pks). strip c = c) \<longrightarrow>
            merge_predicate (join_str '','' (pk_columns pks)) =
              join_str '' AND ''
                (map (\<lambda>col. ''s.'' @ col @ '' = t.'' @ col) (pk_columns pks))) \<and>
         (\<forall>eng st bt df mc dwo.
            map_of (tables st) tn = Some bt \<and>
            primary_keys bt = join_str '','' (pk_columns pks) \<and>
            validate_schema bt df \<longrightarrow>
            (\<exists>rest. calls (snd (BaseTableManager_merge eng tn df mc dwo st)) =
               calls st @
               WriteDelta (PathJoin (base_path st) tn) ''merge'' df None (storage_options st)
                 (Some [(''predicate'',
                         PStr (join_str '' AND ''
                           (map (\<lambda>col. ''s.'' @ col @ '' = t.'' @ col)
                              (if length (pk_columns pks) = 1 then pk_columns pks
                               else map strip (pk_columns pks))))),
                        (''source_alias'', PStr ''s''),
                        (''target_alias'', PStr ''t'')]) # rest))"
proof -
  have stored: "\<exists>bt. map_of (tables (snd (BaseTableManager_create_table tn sch pks st0))) tn =
                  Some bt \<and> primary_keys bt = join_str '','' (pk_columns pks)"
    by (cases pks) (simp_all add: BaseTableManager_create_table_def update_conv')
  have pred: "merge_predicate (join_str '','' (pk_columns pks)) =
           join_str '' AND ''
             (map (\<lambda>col. ''s.'' @ col @ '' = t.'' @ col)
                (if length (pk_columns pks) = 1 then pk_columns pks
                 else map strip (pk_columns pks)))"
    using nonempty no_comma by (rule merge_predicate_join)
  have declared_names: "merge_predicate (join_str '','' (pk_columns pks)) =
              join_str '' AND ''
                (map (\<lambda>col. ''s.'' @ col @ '' = t.'' @ col) (pk_columns pks))"
    if "length (pk_columns pks) = 1 \<or> (\<forall>c \<in> set (pk_columns pks). strip c = c)"
  proof (cases "length (pk_columns pks) = 1")
    case True
    with pred show ?thesis by simp
  next
    case False
    with that have "map strip (pk_columns pks) = pk_columns pks"
      by (simp add: map_strip_id)
    with pred False show ?thesis by (simp only: if_False)
  qed
  have sent: "\<exists>rest. calls (snd (BaseTableManager_merge eng tn df mc dwo st)) =
               calls st @
               WriteDelta (PathJoin (base_path st) tn) ''merge'' df None (storage_options st)
                 (Some [(''predicate'',
                         PStr (join_str '' AND ''
                           (map (\<lambda>col. ''s.'' @ col @ '' = t.'' @ col)
                              (if length (pk_columns pks) = 1 then pk_columns pks
                               else map strip (pk_columns pks))))),
                        (''source_alias'', PStr ''s''),
                        (''target_alias'', PStr ''t'')]) # rest"
    if "map_of (tables st) tn = Some bt"
      and "primary_keys bt = join_str '','' (pk_columns pks)"
      and "validate_schema bt df"
    for eng :: "('r, 't, 'w) engine" and st bt df mc dwo
    using calls_merge[OF that(1) that(3), of eng mc dwo] that(2) pred
    by (simp add: delta_merge_options_def)
  from stored pred declared_names sent show ?thesis by blast
qed

text \<open>The witness covers the two examples of the claim, a single key and a composite key
  with whitespace around the names, and a merge into the example table.\<close>

theorem merge_predicate_of_declared_keys_witness:
  "pk_columns (PKList [''a'', ''b'']) \<noteq> [] \<and>
   CHR '','' \<notin> set ''a'' \<and> CHR '','' \<notin> set ''b'' \<and> CHR '','' \<notin> set ''id'' \<and>
   CHR '','' \<notin> set '' a'' \<and> CHR '','' \<notin> set ''b '' \<and>
   merge_predicate (join_str '','' [''a'', ''b'']) = ''s.a = t.a AND s.b = t.b'' \<and>
   merge_predicate ''a'' = ''s.a = t.a'' \<and>
   merge_predicate '' a'' = ''s. a = t. a'' \<and>
   merge_predicate (join_str '','' ['' a'', ''b '']) = ''s.a = t.a AND s.b = t.b'' \<and>
   map_of (tables (snd (BaseTableManager_create_table ''AB'' example_schema
      (PKList [''a'', ''b'']) fresh_manager))) ''AB'' =
     Some \<lparr>name = ''AB'', table_schema = example_schema, primary_keys = ''a,b''\<rparr> \<and>
   hd (calls (snd (BaseTableManager_merge accepting ''T'' example_batch ''upsert'' None
      example_manager))) =
     WriteDelta (PathJoin ''data'' ''T'') ''merge'' example_batch None None
       (Some [(''predicate'', PStr ''s.id = t.id''), (''source_alias'', PStr ''s''),
              (''target_alias'', PStr ''t'')])"
proof -
  have ne: "pk_columns (PKList [''a'', ''b'']) \<noteq> []" "pk_columns (PKStr ''a'') \<noteq> []"
    "pk_columns (PKStr ''id'') \<noteq> []" "pk_columns (PKStr '' a'') \<noteq> []"
    "pk_columns (PKList ['' a'', ''b '']) \<noteq> []"
    by simp_all
  have cols: "CHR '','' \<notin> set ''a''" "CHR '','' \<notin> set ''b''" "CHR '','' \<notin> set ''id''"
    "CHR '','' \<notin> set '' a''" "CHR '','' \<notin> set ''b ''"
    by simp_all
  have stripped: "strip ''a'' = ''a''" "strip ''b'' = ''b''" "strip '' a'' = ''a''"
    "strip ''b '' = ''b''"
    by (simp_all add: strip_def isspace_def py_whitespace_def)
  have c_ab: "\<forall>c \<in> set (pk_columns (PKList [''a'', ''b''])). CHR '','' \<notin> set c"
    using cols by simp
  have c_a: "\<forall>c \<in> set (pk_columns (PKStr ''a'')). CHR '','' \<notin> set c"
    using cols by simp
  have c_id: "\<forall>c \<in> set (pk_columns (PKStr ''id'')). CHR '','' \<notin> set c"
    using cols by simp
  have c_sa: "\<forall>c \<in> set (pk_columns (PKStr '' a'')). CHR '','' \<notin> set c"
    using cols by simp
  have c_sab: "\<forall>c \<in> set (pk_columns (PKList ['' a'', ''b ''])). CHR '','' \<notin> set c"
    using cols by simp
  have declared: "map_of (tables example_manager) ''T'' = Some example_table"
    by (simp add: example_manager_def)
  have keys: "primary_keys example_table = join_str '','' (pk_columns (PKStr ''id''))"
    by (simp add: example_table_def)
  note ab = merge_predicate_of_declared_keys[OF ne(1) c_ab,
      of "''AB''" example_schema fresh_manager]
  note a = merge_predicate_of_declared_keys[OF ne(2) c_a,
      of "''A''" example_schema fresh_manager]
  note idk = merge_predicate_of_declared_keys[OF ne(3) c_id,
      of "''T''" example_schema fresh_manager]
  note sa = merge_predicate_of_declared_keys[OF ne(4) c_sa,
      of "''A''" example_schema fresh_manager]
  note sab = merge_predicate_of_declared_keys[OF ne(5) c_sab,
      of "''AB''" example_schema fresh_manager]
  from ab[THEN conjunct2, THEN conjunct1]
  have p_ab: "merge_predicate (join_str '','' [''a'', ''b'']) = ''s.a = t.a AND s.b = t.b''"
    by (simp add: stripped)
  from a[THEN conjunct2, THEN conjunct1] have p_a: "merge_predicate ''a'' = ''s.a = t.a''"
    by simp
  from sa[THEN conjunct2, THEN conjunct1] have p_sa: "merge_predicate '' a'' = ''s. a = t. a''"
    by simp
  from sab[THEN conjunct2, THEN conjunct1]
  have p_sab: "merge_predicate (join_str '','' ['' a'', ''b '']) = ''s.a = t.a AND s.b = t.b''"
    by (simp add: stripped)
  have created: "map_of (tables (snd (BaseTableManager_create_table ''AB'' example_schema
      (PKList [''a'', ''b'']) fresh_manager))) ''AB'' =
     Some \<lparr>name = ''AB'', table_schema = example_schema, primary_keys = ''a,b''\<rparr>"
    by (simp add: BaseTableManager_create_table_def fresh_manager_def)
  from idk[THEN conjunct2, THEN conjunct2, THEN conjunct2] declared keys example_conforms
  obtain rest where "calls (snd (BaseTableManager_merge accepting ''T'' example_batch ''upsert''
      None example_manager)) =
      calls example_manager @
      WriteDelta (PathJoin (base_path example_manager) ''T'') ''merge'' example_batch None
        (storage_options example_manager)
        (Some [(''predicate'', PStr (join_str '' AND ''
                  (map (\<lambda>col. ''s.'' @ col @ '' = t.'' @ col)
                     (if length (pk_columns (PKStr ''id'')) = 1 then pk_columns (PKStr ''id'')
                      else map strip (pk_columns (PKStr ''id'')))))),
               (''source_alias'', PStr ''s''), (''target_alias'', PStr ''t'')]) # rest"
    by blast
  then have first: "hd (calls (snd (BaseTableManager_merge accepting ''T'' example_batch
      ''upsert'' None example_manager))) =
     WriteDelta (PathJoin ''data'' ''T'') ''merge'' example_batch None None
       (Some [(''predicate'', PStr ''s.id = t.id''), (''source_alias'', PStr ''s''),
              (''target_alias'', PStr ''t'')])"
    by (simp add: example_manager_def)
  from ne(1) cols p_ab p_a p_sa p_sab created first show ?thesis by simp
qed

text \<open>
  The claim as first stated (for every table definition, the equalities of the declared
  key columns) fails for a key column whose name holds a comma: the two declared columns
  \<^verbatim>\<open>x,y\<close> and \<^verbatim>\<open>z\<close> are stored as \<^verbatim>\<open>x,y,z\<close>, and the predicate compares three
  columns that were not declared. It also fails for a composite key with whitespace at the
  end of a name: the declared column \<^verbatim>\<open> a\<close> (with a leading blank) is compared as
  \<^verbatim>\<open>a\<close>.
\<close>

theorem merge_predicate_comma_counterexample:
  "map_of (tables (snd (BaseTableManager_create_table ''T''
      [(''x,y'', ''Int64''), (''z'', ''Utf8'')] (PKList [''x,y'', ''z'']) fresh_manager))) ''T'' =
     Some \<lparr>name = ''T'', table_schema = [(''x,y'', ''Int64''), (''z'', ''Utf8'')],
           primary_keys = ''x,y,z''\<rparr> \<and>
   merge_predicate ''x,y,z'' = ''s.x = t.x AND s.y = t.y AND s.z = t.z'' \<and>
   join_str '' AND '' (map (\<lambda>col. ''s.'' @ col @ '' = t.'' @ col) [''x,y'', ''z'']) =
     ''s.x,y = t.x,y AND s.z = t.z'' \<and>
   merge_predicate ''x,y,z'' \<noteq>
     join_str '' AND '' (map (\<lambda>col. ''s.'' @ col @ '' = t.'' @ col) [''x,y'', ''z'']) \<and>
   map_of (tables (snd (BaseTableManager_create_table ''T''
      [('' a'', ''Int64''), (''b'', ''Utf8'')] (PKList ['' a'', ''b'']) fresh_manager))) ''T'' =
     Some \<lparr>name = ''T'', table_schema = [('' a'', ''Int64''), (''b'', ''Utf8'')],
           primary_keys = '' a,b''\<rparr> \<and>
   merge_predicate '' a,b'' = ''s.a = t.a AND s.b = t.b'' \<and>
   join_str '' AND '' (map (\<lambda>col. ''s.'' @ col @ '' = t.'' @ col) ['' a'', ''b'']) =
     ''s. a = t. a AND s.b = t.b'' \<and>
   merge_predicate '' a,b'' \<noteq>
     join_str '' AND '' (map (\<lambda>col. ''s.'' @ col @ '' = t.'' @ col) ['' a'', ''b''])"
  by (simp add: BaseTableManager_create_table_def fresh_manager_def merge_predicate_def
      strip_def isspace_def py_whitespace_def)

end
